theory Spec2Isabelle
  imports Complex_Main "HOL-Library.Product_Lexorder"
begin

section \<open>Python strings\<close>

text \<open>
  A Python \<open>str\<close> is modelled as a \<open>string\<close>, a list of characters whose codes are
  the code points 0 to 255 (Latin-1).  \<open>str.isspace\<close>, \<open>str.lower\<close>, \<open>str.strip\<close>,
  \<open>str.split\<close> (without argument) and \<open>" ".join\<close> are written out for that range.
\<close>

definition py_isspace :: "char \<Rightarrow> bool" where
  "py_isspace c =
     (let n = (of_char c :: nat)
      in (9 \<le> n \<and> n \<le> 13) \<or> (28 \<le> n \<and> n \<le> 32) \<or> n = 133 \<or> n = 160)"

definition py_lower_char :: "char \<Rightarrow> char" where
  "py_lower_char c =
     (let n = (of_char c :: nat)
      in if (65 \<le> n \<and> n \<le> 90) \<or> (192 \<le> n \<and> n \<le> 214) \<or> (216 \<le> n \<and> n \<le> 222)
         then char_of (n + 32) else c)"

definition py_lower :: "string \<Rightarrow> string" where
  "py_lower s = map py_lower_char s"

definition py_strip :: "string \<Rightarrow> string" where
  "py_strip s = rev (dropWhile py_isspace (rev (dropWhile py_isspace s)))"

text \<open>
  \<open>s.split()\<close>: the maximal runs of non-whitespace characters, in order.  The first
  argument of \<open>split_acc\<close> is the word read so far, reversed.
\<close>

fun split_acc :: "string \<Rightarrow> string \<Rightarrow> string list" where
  "split_acc cur [] = (if cur = [] then [] else [rev cur])"
| "split_acc cur (c # cs) =
     (if py_isspace c
      then (if cur = [] then split_acc [] cs else rev cur # split_acc [] cs)
      else split_acc (c # cur) cs)"

definition py_split :: "string \<Rightarrow> string list" where
  "py_split s = split_acc [] s"

fun py_join :: "string list \<Rightarrow> string" where
  "py_join [] = []"
| "py_join [w] = w"
| "py_join (w # v # ws) = w @ '' '' @ py_join (v # ws)"

section \<open>The lexical tier tables (common\_filter.py)\<close>

definition COMMON_LEMMAS :: "string list" where
  "COMMON_LEMMAS =
    [''go'', ''get'', ''think'', ''know'', ''say'', ''make'', ''take'', ''want'',
     ''see'', ''come'', ''use'', ''find'', ''give'', ''tell'', ''work'', ''call'',
     ''try'', ''ask'', ''need'', ''feel'', ''become'', ''leave'', ''put'', ''mean'',
     ''keep'', ''let'', ''begin'', ''seem'', ''help'', ''show'', ''hear'', ''play'',
     ''run'', ''move'', ''live'', ''believe'', ''bring'', ''happen'', ''write'',
     ''sit'', ''stand'', ''lose'', ''pay'', ''meet'', ''include'', ''continue'',
     ''set'', ''learn'', ''change'', ''lead'', ''understand'', ''watch'', ''follow'',
     ''stop'', ''create'', ''speak'', ''read'', ''allow'', ''add'', ''spend'', ''grow'',
     ''open'', ''walk'', ''win'', ''offer'', ''remember'', ''love'', ''consider'',
     ''appear'', ''buy'', ''wait'', ''serve'', ''die'', ''send'', ''expect'', ''build'',
     ''stay'', ''fall'', ''cut'', ''reach'', ''kill'', ''remain'', ''suggest'',
     ''raise'', ''pass'', ''sell'', ''require'', ''report'', ''decide'', ''pull'',
     ''break'', ''support'', ''hold'', ''turn'', ''start'', ''might'', ''must'',
     ''people'', ''thing'', ''time'', ''way'', ''year'', ''man'', ''day'', ''world'',
     ''life'', ''hand'', ''part'', ''child'', ''eye'', ''woman'', ''place'', ''work'',
     ''week'', ''case'', ''point'', ''government'', ''company'', ''number'', ''group'',
     ''problem'', ''fact'', ''area'', ''water'', ''room'', ''money'', ''story'',
     ''lot'', ''program'', ''system'', ''car'', ''night'', ''school'', ''state'',
     ''family'', ''president'', ''country'', ''body'', ''house'', ''service'',
     ''party'', ''head'', ''level'', ''office'', ''door'', ''health'', ''person'',
     ''art'', ''war'', ''history'', ''result'', ''morning'', ''reason'', ''research'',
     ''girl'', ''guy'', ''book'', ''end'', ''member'', ''law'', ''face'', ''street'',
     ''community'', ''name'', ''team'', ''minute'', ''idea'', ''kid'', ''back'',
     ''parent'', ''rest'', ''power'', ''side'', ''moment'', ''table'', ''teacher'',
     ''father'', ''center'', ''ground'', ''policy'', ''force'', ''music'', ''role'',
     ''kitchen'', ''sport'', ''board'', ''action'', ''interest'', ''effect'', ''class'',
     ''industry'', ''rate'', ''type'', ''process'', ''job'', ''society'', ''food'',
     ''director'', ''bill'', ''model'', ''project'', ''court'', ''account'', ''sort'',
     ''issue'', ''line'', ''form'', ''term'', ''right'', ''development'', ''value'',
     ''market'', ''report'', ''experience'', ''voice'', ''order'', ''bank'', ''tax'',
     ''education'', ''management'', ''care'', ''activity'', ''couple'', ''amount'',
     ''staff'', ''condition'', ''question'', ''difference'', ''kind'', ''others'',
     ''good'', ''new'', ''first'', ''last'', ''long'', ''great'', ''little'', ''own'',
     ''other'', ''old'', ''right'', ''big'', ''high'', ''different'', ''small'',
     ''large'', ''next'', ''early'', ''young'', ''important'', ''few'', ''public'',
     ''bad'', ''same'', ''able'', ''real'', ''sure'', ''clear'', ''possible'',
     ''whole'', ''certain'', ''likely'', ''social'', ''political'', ''national'',
     ''economic'', ''general'', ''local'', ''international'', ''special'', ''hard'',
     ''fine'', ''simple'', ''single'', ''free'', ''full'', ''best'', ''true'', ''easy'',
     ''strong'', ''available'', ''recent'', ''particular'', ''common'', ''personal'',
     ''open'', ''major'', ''natural'', ''significant'', ''serious'', ''ready'',
     ''necessary'', ''main'', ''basic'', ''central'', ''current'', ''total'',
     ''private'', ''wrong'', ''happy'', ''successful'', ''effective'', ''traditional'',
     ''medical'', ''final'', ''positive'', ''physical'', ''financial'',
     ''environmental'', ''popular'', ''nice'', ''pretty'', ''really'', ''quite'',
     ''actually'', ''probably'', ''maybe'', ''already'', ''always'', ''often'',
     ''sometimes'', ''usually'', ''almost'', ''especially'', ''rather'', ''exactly'',
     ''certainly'', ''obviously'', ''basically'', ''literally'', ''on'', ''in'',
     ''out'', ''up'', ''down'', ''off'', ''over'', ''about'', ''around'', ''through'',
     ''back'', ''away'', ''to'', ''for'', ''with'', ''at'', ''by'', ''from'', ''of'',
     ''as'']"

definition MODERATE_LEMMAS :: "string list" where
  "MODERATE_LEMMAS =
    [''agree'', ''allow'', ''answer'', ''apply'', ''argue'', ''arrive'', ''assume'',
     ''avoid'', ''base'', ''beat'', ''benefit'', ''claim'', ''close'', ''compare'',
     ''concern'', ''consider'', ''contact'', ''contain'', ''cover'', ''deal'',
     ''demand'', ''depend'', ''describe'', ''design'', ''determine'', ''develop'',
     ''discuss'', ''draw'', ''drive'', ''eat'', ''encourage'', ''enjoy'', ''enter'',
     ''exist'', ''express'', ''fail'', ''fill'', ''fit'', ''focus'', ''force'',
     ''forget'', ''form'', ''gain'', ''guess'', ''handle'', ''hang'', ''hope'',
     ''identify'', ''imagine'', ''improve'', ''increase'', ''indicate'', ''involve'',
     ''join'', ''judge'', ''lack'', ''limit'', ''list'', ''manage'', ''mark'',
     ''matter'', ''mind'', ''note'', ''notice'', ''obtain'', ''occur'', ''own'',
     ''perform'', ''pick'', ''plan'', ''prepare'', ''present'', ''prevent'',
     ''produce'', ''prove'', ''provide'', ''publish'', ''pull'', ''push'', ''raise'',
     ''realize'', ''receive'', ''recognize'', ''reduce'', ''refer'', ''reflect'',
     ''refuse'', ''regard'', ''relate'', ''release'', ''remain'', ''remove'',
     ''replace'', ''represent'', ''request'', ''require'', ''respond'', ''result'',
     ''return'', ''reveal'', ''review'', ''rule'', ''share'', ''sign'', ''solve'',
     ''sound'', ''speak'', ''spread'', ''stand'', ''stick'', ''study'', ''succeed'',
     ''suffer'', ''supply'', ''suppose'', ''train'', ''treat'', ''trust'', ''visit'',
     ''vote'', ''wish'', ''accept'', ''account'', ''address'', ''affect'', ''afford'',
     ''aim'', ''announce'', ''apologize'', ''approve'', ''attend'', ''attract'',
     ''average'', ''award'', ''balance'', ''band'', ''basis'', ''battle'', ''behavior'',
     ''belief'', ''birth'', ''bit'', ''block'', ''border'', ''brain'', ''branch'',
     ''budget'', ''burn'', ''bus'', ''cabinet'', ''camp'', ''campaign'', ''capital'',
     ''capture'', ''cell'', ''chain'', ''challenge'', ''channel'', ''chapter'',
     ''charge'', ''choice'', ''claim'', ''client'', ''club'', ''column'', ''comment'',
     ''commission'', ''competition'', ''complaint'', ''complex'', ''concept'',
     ''conclusion'', ''confidence'', ''connection'', ''consequence'', ''construction'',
     ''contact'', ''context'', ''contract'', ''contrast'', ''contribution'',
     ''conversation'', ''cookie'', ''copy'', ''cost'', ''count'', ''country'',
     ''course'', ''culture'', ''curve'', ''data'', ''date'', ''debate'', ''decision'',
     ''definition'', ''demand'', ''design'', ''desire'', ''detail'', ''difficulty'',
     ''discussion'', ''distance'', ''district'', ''document'', ''dream'', ''duty'',
     ''economy'', ''editor'', ''effect'', ''effort'', ''element'', ''emotion'',
     ''emphasis'', ''employee'', ''employer'', ''energy'', ''engine'', ''entry'',
     ''environment'', ''episode'', ''event'', ''evidence'', ''example'', ''exchange'',
     ''exercise'', ''expansion'', ''experience'', ''expert'', ''expression'',
     ''extent'', ''factor'', ''failure'', ''feature'', ''field'', ''figure'', ''film'',
     ''finger'', ''flight'', ''focus'', ''frame'', ''freedom'', ''friend'', ''front'',
     ''function'', ''fund'', ''future'', ''game'', ''gap'', ''generation'', ''glass'',
     ''goal'', ''god'', ''growth'', ''guide'', ''habit'', ''half'', ''impact'',
     ''importance'', ''impression'', ''improvement'', ''incident'', ''income'',
     ''increase'', ''industry'', ''influence'', ''information'', ''injury'',
     ''instance'', ''instruction'', ''insurance'', ''intelligence'', ''intention'',
     ''interview'', ''introduction'', ''item'', ''job'', ''key'', ''knowledge'',
     ''lab'', ''lack'', ''land'', ''language'', ''layer'', ''leader'', ''length'',
     ''level'', ''limit'', ''link'', ''list'', ''loss'', ''machine'', ''magazine'',
     ''majority'', ''manner'', ''map'', ''mass'', ''material'', ''meaning'',
     ''measure'', ''media'', ''medium'', ''method'', ''middle'', ''mind'', ''minority'',
     ''minute'', ''mix'', ''mode'', ''model'', ''moment'', ''month'', ''mouth'',
     ''movement'', ''nature'', ''network'', ''news'', ''noise'', ''note'', ''notice'',
     ''object'', ''opportunity'', ''option'', ''order'', ''organization'', ''output'',
     ''owner'', ''page'', ''pain'', ''painting'', ''pair'', ''panel'', ''paper'',
     ''parent'', ''part'', ''participant'', ''partner'', ''path'', ''patient'',
     ''pattern'', ''payment'', ''peace'', ''period'', ''piece'', ''plan'', ''plane'',
     ''plant'', ''plate'', ''player'', ''pleasure'', ''point'', ''policy'',
     ''position'', ''practice'', ''pressure'', ''price'', ''priority'', ''prize'',
     ''problem'', ''procedure'', ''process'', ''product'', ''profit'', ''program'',
     ''progress'', ''project'', ''promise'', ''proof'', ''property'', ''proposal'',
     ''protection'', ''purpose'', ''quality'', ''quantity'', ''quarter'', ''question'',
     ''range'', ''rate'', ''ratio'', ''reason'', ''record'', ''region'', ''relation'',
     ''relationship'', ''reply'', ''report'', ''request'', ''response'',
     ''responsibility'', ''return'', ''review'', ''risk'', ''role'', ''room'', ''rule'',
     ''safety'', ''sample'', ''scale'', ''scene'', ''schedule'', ''scheme'', ''scope'',
     ''score'', ''screen'', ''section'', ''sector'', ''sense'', ''series'', ''service'',
     ''session'', ''setting'', ''share'', ''shift'', ''shock'', ''side'', ''sign'',
     ''signal'', ''skill'', ''solution'', ''source'', ''space'', ''stage'',
     ''standard'', ''start'', ''state'', ''statement'', ''step'', ''stock'', ''store'',
     ''story'', ''strategy'', ''stress'', ''structure'', ''study'', ''style'',
     ''subject'', ''success'', ''survey'', ''system'', ''target'', ''task'', ''taste'',
     ''technology'', ''temperature'', ''term'', ''theme'', ''thing'', ''thought'',
     ''tip'', ''title'', ''tool'', ''topic'', ''town'', ''trade'', ''tradition'',
     ''train'', ''transfer'', ''transition'', ''truth'', ''turn'', ''type'', ''unit'',
     ''user'', ''value'', ''version'', ''video'', ''view'', ''village'', ''voice'',
     ''vote'', ''war'', ''way'', ''weight'', ''whole'', ''wife'', ''wind'', ''wing'',
     ''winner'', ''witness'', ''worker'', ''works'', ''writer'', ''year'']"

text \<open>\<open>is_common_lemma\<close>: an empty lemma is common; otherwise look the lowered, stripped lemma up.\<close>

definition is_common_lemma :: "string \<Rightarrow> bool" where
  "is_common_lemma lemma =
     (if lemma = [] then True else py_strip (py_lower lemma) \<in> set COMMON_LEMMAS)"

definition phrase_has_distinctive_word :: "string \<Rightarrow> bool" where
  "phrase_has_distinctive_word phrase =
     (if phrase = [] \<or> py_strip phrase = [] then False
      else (let words = map (\<lambda>w. py_lower (py_strip w))
                          (filter (\<lambda>w. py_strip w \<noteq> []) (py_split phrase))
            in \<exists>w \<in> set words. w \<notin> set COMMON_LEMMAS))"

text \<open>
  \<open>head_lemma_is_common\<close>: \<open>pattern.strip().split()[0]\<close> is read only when the stripped
  pattern is not empty, so the split has a first word; the empty list is written out
  as the branch that cannot be taken.
\<close>

definition head_lemma_is_common :: "string \<Rightarrow> bool" where
  "head_lemma_is_common pattern =
     (if pattern = [] \<or> py_strip pattern = [] then True
      else (case py_split (py_strip pattern) of
              [] \<Rightarrow> True
            | w # _ \<Rightarrow> py_lower w \<in> set COMMON_LEMMAS))"

definition rarity_tier :: "string \<Rightarrow> nat" where
  "rarity_tier lemma =
     (if lemma = [] then 0
      else (let w = py_strip (py_lower lemma)
            in if w \<in> set COMMON_LEMMAS then 0
               else if w \<in> set MODERATE_LEMMAS then 1
               else 2))"

section \<open>Annotated tokens (nlp\_processor.py)\<close>

text \<open>
  \<open>process_document\<close> builds every token as a dictionary with the six keys below, so a
  token is a record and no key is ever missing.
\<close>

record token =
  tok_text :: string
  tok_lemma :: string
  tok_norm :: string
  tok_pos :: string
  tok_dep :: string
  tok_is_stop :: bool

definition CONTENT_POS :: "string list" where
  "CONTENT_POS = [''NOUN'', ''VERB'', ''ADJ'', ''ADV'']"

section \<open>Counters, dictionaries and sets\<close>

text \<open>
  A Python \<open>dict\<close> (and a \<open>Counter\<close>) iterates in insertion order: it is an association
  list with distinct keys, a new key going to the end.  A Python \<open>set\<close> is the list of
  its elements; \<open>list(s)\<close> iterates a set in hash order, which the source does not
  determine, so the functions that do it take the enumeration \<open>enum\<close> as a parameter.
\<close>

fun counter_inc :: "'k \<Rightarrow> ('k \<times> nat) list \<Rightarrow> ('k \<times> nat) list" where
  "counter_inc k [] = [(k, 1)]"
| "counter_inc k ((k', c) # m) =
     (if k = k' then (k', c + 1) # m else (k', c) # counter_inc k m)"

fun dict_set :: "'k \<Rightarrow> 'v \<Rightarrow> ('k \<times> 'v) list \<Rightarrow> ('k \<times> 'v) list" where
  "dict_set k v [] = [(k, v)]"
| "dict_set k v ((k', v') # m) =
     (if k = k' then (k', v) # m else (k', v') # dict_set k v m)"

definition set_add :: "'a \<Rightarrow> 'a list \<Rightarrow> 'a list" where
  "set_add x s = (if x \<in> set s then s else s @ [x])"

fun dict_add :: "'k \<Rightarrow> 'a \<Rightarrow> ('k \<times> 'a list) list \<Rightarrow> ('k \<times> 'a list) list" where
  "dict_add k x [] = [(k, [x])]"
| "dict_add k x ((k', s) # m) =
     (if k = k' then (k', set_add x s) # m else (k', s) # dict_add k x m)"

definition dict_get :: "'k \<Rightarrow> 'v \<Rightarrow> ('k \<times> 'v) list \<Rightarrow> 'v" where
  "dict_get k d m = (case map_of m k of None \<Rightarrow> d | Some v \<Rightarrow> v)"

definition insertion_order :: "string list \<Rightarrow> string list" where
  "insertion_order s = s"

text \<open>\<open>Counter.most_common(n)\<close>: the \<open>n\<close> largest counts, equal counts in insertion order.\<close>

definition most_common :: "nat \<Rightarrow> ('k \<times> nat) list \<Rightarrow> ('k \<times> nat) list" where
  "most_common n counter = take n (sort_key (\<lambda>kc. - int (snd kc)) counter)"

section \<open>Exceptions\<close>

text \<open>
  The exceptions the code can raise: a \<open>KeyError\<close> from a dict without the key, an
  \<open>OverflowError\<close> from an integer or a power too large for a float, a
  \<open>ZeroDivisionError\<close> from a division by zero, a \<open>ValueError\<close> from the logarithm of a
  number that is not positive.  A function that can raise returns \<open>Inl\<close> of the exception.
\<close>

datatype py_error = KeyError | OverflowError | ZeroDivisionError | ValueError

section \<open>Rounding\<close>

text \<open>
  Python floats are modelled as real numbers.  \<open>round(x, 2)\<close> rounds to the nearest
  multiple of 1/100, a tie going to the even one.  The code rounds the float it has
  computed, which can lie on the other side of a tie than the real number does: the
  float \<open>1 / 400000 * 10000\<close> is just above 0.025 and rounds to 0.03, the real number is
  0.025 and rounds to 0.02.
\<close>

definition round_half_even :: "real \<Rightarrow> int" where
  "round_half_even x =
     (let f = \<lfloor>x\<rfloor>; d = x - of_int f
      in if d < 1/2 then f else if 1/2 < d then f + 1 else if even f then f else f + 1)"

definition py_round2 :: "real \<Rightarrow> real" where
  "py_round2 x = of_int (round_half_even (x * 100)) / 100"

section \<open>Vocabulary (extractors.py, extract\_vocabulary)\<close>

record vocab_item =
  v_t :: string
  v_c :: nat
  v_p10k :: real
  v_r :: nat
  v_surfaces :: "string list option"

type_synonym vocab_state = "(string \<times> nat) list \<times> (string \<times> string list) list \<times> nat"

text \<open>
  One round of the loop over the tokens.  The state is \<open>(counter, surfaces_by_lemma,
  total_tokens)\<close>; the \<open>continue\<close> of a common lemma leaves the round before
  \<open>total_tokens += 1\<close>.
\<close>

definition vocab_step :: "token \<Rightarrow> vocab_state \<Rightarrow> vocab_state" where
  "vocab_step tok st =
     (case st of (counter, surfaces_by_lemma, total_tokens) \<Rightarrow>
        if tok_pos tok \<in> set CONTENT_POS \<and> \<not> tok_is_stop tok
        then (if is_common_lemma (tok_lemma tok)
              then (counter, surfaces_by_lemma, total_tokens)
              else (counter_inc (tok_lemma tok) counter,
                    dict_add (tok_lemma tok) (tok_text tok) surfaces_by_lemma,
                    total_tokens + 1))
        else (counter, surfaces_by_lemma, total_tokens + 1))"

definition vocab_entry ::
  "(string list \<Rightarrow> string list) \<Rightarrow> (string \<times> string list) list \<Rightarrow> nat \<Rightarrow> string \<times> nat
     \<Rightarrow> vocab_item" where
  "vocab_entry enum surfaces_by_lemma total_tokens lc =
     (let surfaces = take 30 (enum (dict_get (fst lc) [] surfaces_by_lemma))
      in \<lparr>v_t = fst lc, v_c = snd lc,
          v_p10k = py_round2 (real (snd lc) / real total_tokens * 10000),
          v_r = rarity_tier (fst lc),
          v_surfaces = (if surfaces = [] then None else Some surfaces)\<rparr>)"

definition vocab_key :: "vocab_item \<Rightarrow> int \<times> int" where
  "vocab_key x = (- int (v_r x), - int (v_c x))"

definition extract_vocabulary ::
  "(string list \<Rightarrow> string list) \<Rightarrow> token list \<Rightarrow> vocab_item list" where
  "extract_vocabulary enum tokens =
     (case fold vocab_step tokens ([], [], 0) of (counter, surfaces_by_lemma, total_tokens) \<Rightarrow>
        if total_tokens = 0 then []
        else take 1000 (sort_key vocab_key
               (map (vocab_entry enum surfaces_by_lemma total_tokens) counter)))"

section \<open>N-grams (extractors.py, generate\_ngrams)\<close>

text \<open>
  The window starting at \<open>i\<close>, as the list of the triples it contributes (none or one).
  The callers pass \<open>n\<close> from 2 to 7, so the division by \<open>n\<close> is defined.
\<close>

definition ngram_at :: "token list \<Rightarrow> nat \<Rightarrow> string \<Rightarrow> nat \<Rightarrow> (string \<times> string \<times> string) list" where
  "ngram_at tokens n doc_id i =
     (let ngram = take n (drop i tokens);
          stop_count = length (filter tok_is_stop ngram)
      in if real stop_count / real n > 6 / 10 then []
         else if \<not> (\<exists>t \<in> set ngram. tok_pos t \<in> set CONTENT_POS) then []
         else [(py_join (map tok_norm ngram), doc_id, py_join (map tok_text ngram))])"

definition generate_ngrams :: "token list \<Rightarrow> nat \<Rightarrow> string \<Rightarrow> (string \<times> string \<times> string) list" where
  "generate_ngrams tokens n doc_id =
     concat (map (ngram_at tokens n doc_id) [0 ..< length tokens + 1 - n])"

section \<open>Pointwise mutual information (extractors.py, \_unigram\_counts\_and\_total and \_pmi)\<close>

definition unigram_step :: "token \<Rightarrow> (string \<times> nat) list \<times> nat \<Rightarrow> (string \<times> nat) list \<times> nat" where
  "unigram_step t st =
     (case st of (unigram, total') \<Rightarrow>
        let norm = py_strip (if tok_norm t \<noteq> [] then tok_norm t
                             else if tok_lemma t \<noteq> [] then tok_lemma t else [])
        in if norm \<noteq> [] then (counter_inc norm unigram, total' + 1) else (unigram, total'))"

definition unigram_counts_and_total ::
  "(string \<times> token list) list \<Rightarrow> (string \<times> nat) list \<times> nat" where
  "unigram_counts_and_total all_tokens =
     fold (\<lambda>dt st. fold unigram_step (snd dt) st) all_tokens ([], 0)"

text \<open>The product of the smoothed unigram counts, the loop \<open>prod *= c\<close> from \<open>prod = 1.0\<close>.\<close>

definition pmi_prod :: "(string \<times> nat) list \<Rightarrow> string list \<Rightarrow> real" where
  "pmi_prod unigram words = fold (\<lambda>w prod. prod * (real (dict_get w 0 unigram) + 1 / 100)) words 1"

text \<open>The value before rounding: \<open>math.log2(num / (prod + 1e-10))\<close>.\<close>

definition pmi_value :: "string list \<Rightarrow> int \<Rightarrow> (string \<times> nat) list \<Rightarrow> int \<Rightarrow> int \<Rightarrow> real" where
  "pmi_value words phrase_count unigram total_tokens n =
     (let prod = pmi_prod unigram words;
          num = (real_of_int phrase_count + 1 / 100) * (real_of_int total_tokens + 1 / 100) ^ nat (n - 1)
      in log 2 (num / (prod + 1 / 10 ^ 10)))"

definition pmi :: "string \<Rightarrow> int \<Rightarrow> (string \<times> nat) list \<Rightarrow> int \<Rightarrow> int \<Rightarrow> real" where
  "pmi phrase phrase_count unigram total_tokens n =
     (if total_tokens \<le> 0 \<or> phrase_count \<le> 0 \<or> n < 2 then 0
      else (let words = py_split phrase
            in if int (length words) \<noteq> n then 0
               else py_round2 (pmi_value words phrase_count unigram total_tokens n)))"

section \<open>The floats of \_pmi\<close>

text \<open>
  \<open>pmi\<close> above computes in the real numbers.  \<open>pmi_checked\<close> is the same function with the
  floats of the code.  A float is a finite real, \<open>inf\<close> or \<open>nan\<close>; all the operands of
  \<open>_pmi\<close> are positive or zero, so \<open>-inf\<close> does not arise.  A real of \<open>2^1024 - 2^970\<close> or
  more rounds beyond the largest double: converting such an integer (\<open>count + 0.01\<close>
  converts the integer first) and raising to such a power (\<open>**\<close>) raise OverflowError, and
  a product, a sum or a quotient that large is \<open>inf\<close>.  The rounding of each finite result
  to 53 bits is left out: a finite result is the real number.
\<close>

datatype pyfloat = Finite real | PosInf | NaN

definition float_limit :: real where
  "float_limit = 2 ^ 1024 - 2 ^ 970"

definition float_of_int :: "int \<Rightarrow> py_error + real" where
  "float_of_int i = (if \<bar>real_of_int i\<bar> < float_limit then Inr (real_of_int i) else Inl OverflowError)"

definition float_box :: "real \<Rightarrow> pyfloat" where
  "float_box r = (if r < float_limit then Finite r else PosInf)"

text \<open>\<open>x * c\<close> and \<open>x + c\<close> for a float \<open>x\<close> and a finite positive \<open>c\<close>.\<close>

fun float_times :: "pyfloat \<Rightarrow> real \<Rightarrow> pyfloat" where
  "float_times (Finite a) c = float_box (a * c)"
| "float_times PosInf c = PosInf"
| "float_times NaN c = NaN"

fun float_plus :: "pyfloat \<Rightarrow> real \<Rightarrow> pyfloat" where
  "float_plus (Finite a) c = float_box (a + c)"
| "float_plus PosInf c = PosInf"
| "float_plus NaN c = NaN"

text \<open>\<open>b ** k\<close> for a finite positive \<open>b\<close>.\<close>

definition float_pow :: "real \<Rightarrow> nat \<Rightarrow> py_error + real" where
  "float_pow b k = (if b ^ k < float_limit then Inr (b ^ k) else Inl OverflowError)"

text \<open>\<open>x / y\<close> for floats that are not negative.\<close>

fun float_div :: "pyfloat \<Rightarrow> pyfloat \<Rightarrow> py_error + pyfloat" where
  "float_div (Finite a) (Finite b) = (if b = 0 then Inl ZeroDivisionError else Inr (float_box (a / b)))"
| "float_div PosInf (Finite b) = (if b = 0 then Inl ZeroDivisionError else Inr PosInf)"
| "float_div NaN (Finite b) = (if b = 0 then Inl ZeroDivisionError else Inr NaN)"
| "float_div (Finite a) PosInf = Inr (Finite 0)"
| "float_div PosInf PosInf = Inr NaN"
| "float_div NaN PosInf = Inr NaN"
| "float_div x NaN = Inr NaN"

fun float_log2 :: "pyfloat \<Rightarrow> py_error + pyfloat" where
  "float_log2 (Finite x) = (if x \<le> 0 then Inl ValueError else Inr (Finite (log 2 x)))"
| "float_log2 PosInf = Inr PosInf"
| "float_log2 NaN = Inr NaN"

fun float_round2 :: "pyfloat \<Rightarrow> pyfloat" where
  "float_round2 (Finite x) = Finite (py_round2 x)"
| "float_round2 PosInf = PosInf"
| "float_round2 NaN = NaN"

text \<open>The loop \<open>for w in words: c = unigram.get(w, 0) + 0.01; prod *= c\<close>.\<close>

fun pmi_prod_checked :: "(string \<times> nat) list \<Rightarrow> string list \<Rightarrow> pyfloat \<Rightarrow> py_error + pyfloat" where
  "pmi_prod_checked unigram [] prd = Inr prd"
| "pmi_prod_checked unigram (w # ws) prd =
     (case float_of_int (int (dict_get w 0 unigram)) of
        Inl e \<Rightarrow> Inl e
      | Inr c \<Rightarrow> pmi_prod_checked unigram ws (float_times prd (c + 1 / 100)))"

definition pmi_checked :: "string \<Rightarrow> int \<Rightarrow> (string \<times> nat) list \<Rightarrow> int \<Rightarrow> int \<Rightarrow> py_error + pyfloat" where
  "pmi_checked phrase phrase_count unigram total_tokens n =
     (if total_tokens \<le> 0 \<or> phrase_count \<le> 0 \<or> n < 2 then Inr (Finite 0)
      else (let words = py_split phrase
            in if int (length words) \<noteq> n then Inr (Finite 0)
               else (case pmi_prod_checked unigram words (Finite 1) of
                       Inl e \<Rightarrow> Inl e
                     | Inr prd \<Rightarrow>
                   (case float_of_int phrase_count of
                       Inl e \<Rightarrow> Inl e
                     | Inr pc \<Rightarrow>
                   (case float_of_int total_tokens of
                       Inl e \<Rightarrow> Inl e
                     | Inr tt \<Rightarrow>
                   (case float_pow (tt + 1 / 100) (nat (n - 1)) of
                       Inl e \<Rightarrow> Inl e
                     | Inr pw \<Rightarrow>
                   (let num = float_box ((pc + 1 / 100) * pw)
                    in case float_div num (float_plus prd (1 / 10 ^ 10)) of
                         Inl e \<Rightarrow> Inl e
                       | Inr q \<Rightarrow>
                      (case float_log2 q of
                         Inl e \<Rightarrow> Inl e
                       | Inr l \<Rightarrow> Inr (float_round2 l)))))))))"

text \<open>
  \<open>extract_learning_phrases\<close> below calls \<open>pmi\<close>: the counts of a corpus are far inside the
  range of a double, where \<open>pmi_checked\<close> returns the finite float \<open>pmi\<close>.
\<close>

section \<open>Learning phrases (extractors.py, extract\_learning\_phrases)\<close>

record learning_phrase =
  lp_t :: string
  lp_n :: string
  lp_c :: nat
  lp_df :: nat
  lp_s :: real
  lp_pmi :: real
  lp_surfaces :: "string list option"

type_synonym lp_state =
  "(string \<times> nat) list \<times> (string \<times> string list) list \<times> (string \<times> string list) list \<times> (string \<times> nat) list"

text \<open>The state is \<open>(phrase_count, phrase_docs, phrase_surfaces, phrase_n)\<close>.\<close>

definition lp_ngram_step :: "nat \<Rightarrow> string \<times> string \<times> string \<Rightarrow> lp_state \<Rightarrow> lp_state" where
  "lp_ngram_step n g st =
     (case g of (phrase, doc, surface) \<Rightarrow>
      case st of (phrase_count, phrase_docs, phrase_surfaces, phrase_n) \<Rightarrow>
        (counter_inc phrase phrase_count,
         dict_add phrase doc phrase_docs,
         (if py_strip surface \<noteq> [] then dict_add phrase surface phrase_surfaces
          else phrase_surfaces),
         dict_set phrase n phrase_n))"

definition lp_doc_step :: "string \<times> token list \<Rightarrow> lp_state \<Rightarrow> lp_state" where
  "lp_doc_step dt st =
     fold (\<lambda>n st'. fold (lp_ngram_step n) (generate_ngrams (snd dt) n (fst dt)) st')
       [2, 3, 4, 5] st"

definition lp_tables :: "(string \<times> token list) list \<Rightarrow> lp_state" where
  "lp_tables all_tokens = fold lp_doc_step all_tokens ([], [], [], [])"

definition min_doc_freq :: "nat \<Rightarrow> nat" where
  "min_doc_freq total_docs = (if total_docs = 1 then 1 else 2)"

definition min_count :: "nat \<Rightarrow> nat" where
  "min_count total_docs = (if total_docs = 1 then 2 else 5)"

text \<open>One round of the loop over \<open>phrase_count.items()\<close>: the item appended, if any.\<close>

definition lp_item ::
  "(string list \<Rightarrow> string list) \<Rightarrow> lp_state \<Rightarrow> (string \<times> nat) list \<Rightarrow> nat \<Rightarrow> nat
     \<Rightarrow> string \<times> nat \<Rightarrow> learning_phrase list" where
  "lp_item enum tables unigram total_tokens total_docs pc =
     (case tables of (phrase_count, phrase_docs, phrase_surfaces, phrase_n) \<Rightarrow>
      let phrase = fst pc; count = snd pc;
          doc_freq = length (dict_get phrase [] phrase_docs)
      in if count < min_count total_docs \<or> doc_freq < min_doc_freq total_docs then []
         else if \<not> phrase_has_distinctive_word phrase then []
         else (let score = real count * ln (1 + real doc_freq);
                   surfaces = take 30 (enum (dict_get phrase [] phrase_surfaces))
               in [\<lparr>lp_t = phrase, lp_n = phrase, lp_c = count, lp_df = doc_freq,
                     lp_s = py_round2 score,
                     lp_pmi = pmi phrase (int count) unigram (int total_tokens)
                                (int (dict_get phrase 2 phrase_n)),
                     lp_surfaces = (if surfaces = [] then None else Some surfaces)\<rparr>]))"

text \<open>Sorting by \<open>(pmi, s)\<close> with \<open>reverse=True\<close> is a stable sort on the negated pair.\<close>

definition lp_key :: "learning_phrase \<Rightarrow> real \<times> real" where
  "lp_key x = (- lp_pmi x, - lp_s x)"

definition extract_learning_phrases ::
  "(string list \<Rightarrow> string list) \<Rightarrow> (string \<times> token list) list \<Rightarrow> nat \<Rightarrow> learning_phrase list" where
  "extract_learning_phrases enum all_tokens total_docs =
     (let tables = lp_tables all_tokens;
          ut = unigram_counts_and_total all_tokens
      in take 1000 (sort_key lp_key
           (concat (map (lp_item enum tables (fst ut) (snd ut) total_docs) (fst tables)))))"

section \<open>Pattern aggregation (extractors.py, aggregate\_patterns)\<close>

datatype pattern_kind = VPO | Phrasal | VO | Adjn | NN

record pattern =
  p_t :: string
  p_kind :: pattern_kind
  p_surface :: string

record pattern_item =
  pi_t :: string
  pi_kind :: pattern_kind
  pi_c :: nat
  pi_df :: nat
  pi_surfaces :: "string list option"

type_synonym ap_state =
  "(string \<times> nat) list \<times> (string \<times> string list) list \<times> (string \<times> pattern_kind) list \<times> (string \<times> string list) list"

text \<open>The state is \<open>(pattern_count, pattern_docs, pattern_kind, pattern_surfaces)\<close>.\<close>

definition ap_step :: "string \<Rightarrow> pattern \<Rightarrow> ap_state \<Rightarrow> ap_state" where
  "ap_step doc_id p st =
     (case st of (pattern_count, pattern_docs, pattern_kind, pattern_surfaces) \<Rightarrow>
        let key = p_t p; surface = py_strip (p_surface p)
        in (counter_inc key pattern_count,
            dict_add key doc_id pattern_docs,
            dict_set key (p_kind p) pattern_kind,
            (if surface \<noteq> [] then dict_add key surface pattern_surfaces
             else pattern_surfaces)))"

definition ap_tables :: "(string \<times> pattern list) list \<Rightarrow> ap_state" where
  "ap_tables all_patterns =
     fold (\<lambda>dp st. fold (ap_step (fst dp)) (snd dp) st) all_patterns ([], [], [], [])"

text \<open>
  The loop over \<open>pattern_count.most_common(1000)\<close>.  \<open>pattern_kind[pattern]\<close> raises
  KeyError on a missing key, which is a result of the model.
\<close>

fun ap_results ::
  "(string list \<Rightarrow> string list) \<Rightarrow> ap_state \<Rightarrow> (string \<times> nat) list \<Rightarrow> py_error + pattern_item list" where
  "ap_results enum tables [] = Inr []"
| "ap_results enum tables (pc # rest) =
     (if head_lemma_is_common (fst pc) then ap_results enum tables rest
      else (case tables of (pattern_count, pattern_docs, pattern_kind, pattern_surfaces) \<Rightarrow>
            case map_of pattern_kind (fst pc) of
              None \<Rightarrow> Inl KeyError
            | Some kind \<Rightarrow>
                (let surfaces = take 30 (enum (dict_get (fst pc) [] pattern_surfaces));
                     item = \<lparr>pi_t = fst pc, pi_kind = kind, pi_c = snd pc,
                             pi_df = length (dict_get (fst pc) [] pattern_docs),
                             pi_surfaces = (if surfaces = [] then None else Some surfaces)\<rparr>
                 in case ap_results enum tables rest of
                      Inl e \<Rightarrow> Inl e
                    | Inr items \<Rightarrow> Inr (item # items))))"

definition aggregate_patterns ::
  "(string list \<Rightarrow> string list) \<Rightarrow> (string \<times> pattern list) list \<Rightarrow> py_error + pattern_item list" where
  "aggregate_patterns enum all_patterns =
     (let tables = ap_tables all_patterns
      in ap_results enum tables (most_common 1000 (fst tables)))"

section \<open>Notions used to state the claims\<close>

text \<open>
  A token is counted by \<open>extract_vocabulary\<close> when its part of speech is a content
  one, it is not a stop word and its lemma is not common; it is skipped (and not
  counted in \<open>total_tokens\<close> either) when only the last condition fails.
\<close>

definition vocab_counted :: "token \<Rightarrow> bool" where
  "vocab_counted tok =
     (tok_pos tok \<in> set CONTENT_POS \<and> \<not> tok_is_stop tok \<and> \<not> is_common_lemma (tok_lemma tok))"

definition vocab_skipped :: "token \<Rightarrow> bool" where
  "vocab_skipped tok =
     (tok_pos tok \<in> set CONTENT_POS \<and> \<not> tok_is_stop tok \<and> is_common_lemma (tok_lemma tok))"

definition vocab_lemmas :: "token list \<Rightarrow> string list" where
  "vocab_lemmas tokens = map tok_lemma (filter vocab_counted tokens)"

text \<open>A family of distinct rare words, for inputs with more than 1000 keys.\<close>

definition zword :: "nat \<Rightarrow> string" where
  "zword i = replicate (Suc i) CHR ''z''"

definition ztoken :: "nat \<Rightarrow> token" where
  "ztoken i = \<lparr>tok_text = zword i, tok_lemma = zword i, tok_norm = zword i,
               tok_pos = ''NOUN'', tok_dep = ''ROOT'', tok_is_stop = False\<rparr>"

text \<open>A corpus of 1001 tokens with 1001 distinct counted lemmas.\<close>

definition ztokens :: "token list" where
  "ztokens = map ztoken [0..<1001]"

text \<open>
  The pattern occurrences of a corpus in the order the loops visit them, each with its
  document id, and those of one key.
\<close>

definition pattern_occurrences :: "(string \<times> pattern list) list \<Rightarrow> (string \<times> pattern) list" where
  "pattern_occurrences all_patterns = concat (map (\<lambda>dp. map (Pair (fst dp)) (snd dp)) all_patterns)"

definition pattern_uses :: "(string \<times> pattern list) list \<Rightarrow> string \<Rightarrow> (string \<times> pattern) list" where
  "pattern_uses all_patterns k = filter (\<lambda>ob. p_t (snd ob) = k) (pattern_occurrences all_patterns)"

text \<open>
  The item \<open>aggregate_patterns\<close> appends for a key that \<open>pattern_kind\<close> holds (the
  default kind stands for the key that is missing, which raises in the source).
\<close>

definition ap_item ::
  "(string list \<Rightarrow> string list) \<Rightarrow> ap_state \<Rightarrow> string \<times> nat \<Rightarrow> pattern_item" where
  "ap_item enum tables pc =
     (case tables of (pattern_count, pattern_docs, pattern_kind, pattern_surfaces) \<Rightarrow>
        let surfaces = take 30 (enum (dict_get (fst pc) [] pattern_surfaces))
        in \<lparr>pi_t = fst pc, pi_kind = dict_get (fst pc) VPO pattern_kind, pi_c = snd pc,
            pi_df = length (dict_get (fst pc) [] pattern_docs),
            pi_surfaces = (if surfaces = [] then None else Some surfaces)\<rparr>)"

text \<open>The key ``flip off'' seen as a phrasal verb in one document, as verb and object in the next.\<close>

definition flip_patterns :: "(string \<times> pattern list) list" where
  "flip_patterns =
     [(''d1'', [\<lparr>p_t = ''flip off'', p_kind = Phrasal, p_surface = ''flip off''\<rparr>]),
      (''d2'', [\<lparr>p_t = ''flip off'', p_kind = VO, p_surface = ''flip off''\<rparr>])]"

text \<open>
  One document with 1000 distinct patterns headed by the common verb ``go'', then the
  pattern ``reckon folks''; every key occurs once.
\<close>

definition go_key :: "nat \<Rightarrow> string" where
  "go_key i = ''go '' @ zword i"

definition go_pattern :: "nat \<Rightarrow> pattern" where
  "go_pattern i = \<lparr>p_t = go_key i, p_kind = VO, p_surface = go_key i\<rparr>"

definition go_patterns :: "(string \<times> pattern list) list" where
  "go_patterns =
     [(''d1'', map go_pattern [0..<1000]
               @ [\<lparr>p_t = ''reckon folks'', p_kind = VO, p_surface = ''reckon folks''\<rparr>])]"

text \<open>
  The n-grams of a corpus in the order the loops of \<open>extract_learning_phrases\<close> visit
  them (documents in order, for each \<open>n\<close> from 2 to 5), with and without \<open>n\<close>; the
  total count and the document frequency of a phrase; the phrases the filter of the code
  keeps for a value of \<open>total_docs\<close> (thresholds 2 and 1 when it is 1, else 5 and 2).
\<close>

definition lp_occurrences ::
  "(string \<times> token list) list \<Rightarrow> (nat \<times> string \<times> string \<times> string) list" where
  "lp_occurrences all_tokens =
     concat (map (\<lambda>dt. concat (map (\<lambda>n. map (Pair n) (generate_ngrams (snd dt) n (fst dt)))
                                   [2, 3, 4, 5])) all_tokens)"

definition all_ngrams :: "(string \<times> token list) list \<Rightarrow> (string \<times> string \<times> string) list" where
  "all_ngrams all_tokens = map snd (lp_occurrences all_tokens)"

definition phrase_total :: "(string \<times> token list) list \<Rightarrow> string \<Rightarrow> nat" where
  "phrase_total all_tokens p = count_list (map fst (all_ngrams all_tokens)) p"

definition phrase_df :: "(string \<times> token list) list \<Rightarrow> string \<Rightarrow> nat" where
  "phrase_df all_tokens p =
     card ((\<lambda>g. fst (snd g)) ` set (filter (\<lambda>g. fst g = p) (all_ngrams all_tokens)))"

definition passes_filter :: "(string \<times> token list) list \<Rightarrow> nat \<Rightarrow> string \<Rightarrow> bool" where
  "passes_filter all_tokens total_docs p =
     (phrase_has_distinctive_word p \<and>
      (if total_docs = 1 then 2 \<le> phrase_total all_tokens p \<and> 1 \<le> phrase_df all_tokens p
       else 5 \<le> phrase_total all_tokens p \<and> 2 \<le> phrase_df all_tokens p))"

definition kept_phrases :: "(string \<times> token list) list \<Rightarrow> nat \<Rightarrow> string set" where
  "kept_phrases all_tokens total_docs =
     set (filter (passes_filter all_tokens total_docs) (map fst (all_ngrams all_tokens)))"

text \<open>
  The phrases that qualify by the size of the corpus: a word outside the common set, and
  count at least 2 and document frequency at least 1 in a corpus of one document, at
  least 5 and at least 2 in a corpus of two or more.  The corpus is a dictionary, so its
  length is its number of documents.
\<close>

definition qualifies :: "(string \<times> token list) list \<Rightarrow> string \<Rightarrow> bool" where
  "qualifies all_tokens p =
     (phrase_has_distinctive_word p \<and>
      (length all_tokens = 1 \<longrightarrow>
         2 \<le> phrase_total all_tokens p \<and> 1 \<le> phrase_df all_tokens p) \<and>
      (2 \<le> length all_tokens \<longrightarrow>
         5 \<le> phrase_total all_tokens p \<and> 2 \<le> phrase_df all_tokens p))"

definition qualifying_phrases :: "(string \<times> token list) list \<Rightarrow> string set" where
  "qualifying_phrases all_tokens =
     set (filter (qualifies all_tokens) (map fst (all_ngrams all_tokens)))"

text \<open>An entry without its surface forms.\<close>

definition lp_core :: "learning_phrase \<Rightarrow> string \<times> string \<times> nat \<times> nat \<times> real \<times> real" where
  "lp_core x = (lp_t x, lp_n x, lp_c x, lp_df x, lp_s x, lp_pmi x)"

text \<open>
  One document that reads the 1002 words z, zz, ... twice, so that each of the 1001
  bigrams of neighbouring words occurs twice; and two small corpora of the words
  ``folks'' and ``reckon''.
\<close>

definition zcorpus :: "(string \<times> token list) list" where
  "zcorpus = [(''d1'', map ztoken ([0..<1002] @ [0..<1002]))]"

definition zbigram :: "nat \<Rightarrow> string" where
  "zbigram i = zword i @ '' '' @ zword (Suc i)"

definition folks :: token where
  "folks = \<lparr>tok_text = ''folks'', tok_lemma = ''folks'', tok_norm = ''folks'',
            tok_pos = ''NOUN'', tok_dep = ''nsubj'', tok_is_stop = False\<rparr>"

definition reckon :: token where
  "reckon = \<lparr>tok_text = ''reckon'', tok_lemma = ''reckon'', tok_norm = ''reckon'',
             tok_pos = ''VERB'', tok_dep = ''ROOT'', tok_is_stop = False\<rparr>"

definition one_doc_corpus :: "(string \<times> token list) list" where
  "one_doc_corpus = [(''d1'', [folks, reckon, folks, reckon])]"

definition two_doc_corpus :: "(string \<times> token list) list" where
  "two_doc_corpus =
     [(''d1'', [folks, reckon, folks, reckon, folks, reckon]),
      (''d2'', [folks, reckon, folks, reckon, folks])]"

text \<open>One document in which the phrase ``folks reckon'' has two surface forms.\<close>

definition surf_corpus :: "(string \<times> token list) list" where
  "surf_corpus = [(''d1'', [folks\<lparr>tok_text := ''Folks''\<rparr>, reckon, folks, reckon])]"

section \<open>Facts about strings and the tier tables\<close>

lemma blank_not_common: "[] \<notin> set COMMON_LEMMAS"
  by (simp add: COMMON_LEMMAS_def)

lemma blank_not_moderate: "[] \<notin> set MODERATE_LEMMAS"
  by (simp add: MODERATE_LEMMAS_def)

lemma py_isspace_space [simp]: "py_isspace CHR '' ''"
  by (simp add: py_isspace_def)

lemma py_lower_char_space [simp]: "py_lower_char CHR '' '' = CHR '' ''"
  by (simp add: py_lower_char_def)

lemma rarity_tier_not_common:
  "\<not> is_common_lemma l \<Longrightarrow> rarity_tier l = 1 \<or> rarity_tier l = 2"
  by (simp add: is_common_lemma_def rarity_tier_def Let_def split: if_splits)

text \<open>
  C6 (the code departs from the claim).  The claim: every empty or whitespace-only input
  of \<open>rarity_tier\<close> is classified 0.  The empty string is; the string of one space is
  classified 2, and \<open>is_common_lemma\<close> does not hold of it, because only the empty
  string is tested before the lookup of the stripped lemma.
\<close>

theorem rarity_tier_whitespace_only:
  "rarity_tier [] = 0 \<and> rarity_tier '' '' = 2 \<and> \<not> is_common_lemma '' ''"
  by (simp add: rarity_tier_def is_common_lemma_def py_lower_def py_strip_def
      blank_not_common blank_not_moderate)

section \<open>Rounding and pointwise mutual information\<close>

lemma round_half_even_of_int [simp]: "round_half_even (of_int k) = k"
  by (simp add: round_half_even_def)

lemma round_half_even_numeral [simp]: "round_half_even (numeral n) = numeral n"
  using round_half_even_of_int [of "numeral n"] by simp

lemma round_half_even_mono: "x \<le> y \<Longrightarrow> round_half_even x \<le> round_half_even y"
proof -
  assume xy: "x \<le> y"
  have fl: "\<lfloor>x\<rfloor> \<le> \<lfloor>y\<rfloor>" using xy by (rule floor_mono)
  show ?thesis
  proof (cases "\<lfloor>x\<rfloor> = \<lfloor>y\<rfloor>")
    case True
    then show ?thesis using xy by (auto simp: round_half_even_def Let_def)
  next
    case False
    then have "\<lfloor>x\<rfloor> + 1 \<le> \<lfloor>y\<rfloor>" using fl by linarith
    moreover have "round_half_even x \<le> \<lfloor>x\<rfloor> + 1" by (simp add: round_half_even_def Let_def)
    moreover have "\<lfloor>y\<rfloor> \<le> round_half_even y" by (simp add: round_half_even_def Let_def)
    ultimately show ?thesis by linarith
  qed
qed

lemma py_round2_mono: "x \<le> y \<Longrightarrow> py_round2 x \<le> py_round2 y"
  by (simp add: py_round2_def round_half_even_mono divide_right_mono)

lemma round_half_even_small: "- (1 / 2) \<le> y \<Longrightarrow> y \<le> 1 / 2 \<Longrightarrow> round_half_even y = 0"
proof -
  assume lo: "- (1 / 2) \<le> y" and hi: "y \<le> 1 / 2"
  show ?thesis
  proof (cases "y < 0")
    case True
    then have "\<lfloor>y\<rfloor> = -1" using lo by linarith
    then show ?thesis using lo by (simp add: round_half_even_def Let_def)
  next
    case False
    then have "\<lfloor>y\<rfloor> = 0" using hi by linarith
    then show ?thesis using hi by (simp add: round_half_even_def Let_def)
  qed
qed

lemma power200_ge_half: "399 / 400 \<le> (x::real) \<Longrightarrow> 1 / 2 \<le> x ^ 200"
proof -
  assume h: "399 / 400 \<le> x"
  have "1 + real 200 * (x - 1) \<le> (1 + (x - 1)) ^ 200"
    by (rule Bernoulli_inequality) (use h in simp)
  then show ?thesis using h by simp
qed

text \<open>A ratio within 1/400 of 1 has a binary logarithm that rounds to 0.00.\<close>

lemma log2_near_one:
  assumes lo: "399 / 400 \<le> (x::real)" and hi: "x \<le> 400 / 399"
  shows "round_half_even (log 2 x * 100) = 0"
proof -
  have xpos: "0 < x" using lo by simp
  have a: "1 / 2 \<le> x ^ 200" using lo by (rule power200_ge_half)
  have "399 / 400 \<le> 1 / x" using hi xpos by (simp add: field_simps)
  then have "1 / 2 \<le> (1 / x) ^ 200" by (rule power200_ge_half)
  then have b: "x ^ 200 \<le> 2" using xpos by (simp add: field_simps)
  have l: "log 2 (x ^ 200) = 200 * log 2 x" using xpos by (simp add: log_nat_power)
  have "log 2 (1 / 2) \<le> log 2 (x ^ 200)" using a xpos by simp
  hence c: "-1 \<le> 200 * log 2 x" using l by (simp add: log_divide)
  have "log 2 (x ^ 200) \<le> log 2 2" using b xpos by simp
  hence d: "200 * log 2 x \<le> 1" using l by simp
  show ?thesis by (rule round_half_even_small) (use c d in linarith)+
qed

lemma pmi_prod_fold:
  "fold (\<lambda>w prod. prod * (real (dict_get w 0 u) + 1 / 100)) ws a
     = a * prod_list (map (\<lambda>w. real (dict_get w 0 u) + 1 / 100) ws)"
  by (induction ws arbitrary: a) (simp_all add: mult.assoc)

lemma pmi_prod_prod_list:
  "pmi_prod u ws = prod_list (map (\<lambda>w. real (dict_get w 0 u) + 1 / 100) ws)"
  by (simp add: pmi_prod_def pmi_prod_fold)

lemma pmi_prod_pos: "0 < pmi_prod u ws"
  unfolding pmi_prod_prod_list
  by (induction ws) (simp_all add: add_nonneg_pos)

lemma py_split_reckon_folks: "py_split ''reckon folks'' = [''reckon'', ''folks'']"
  by (simp add: py_split_def py_isspace_def)

subsection \<open>The value of \<open>_pmi\<close> in floats\<close>

















lemma pmi_prod_checked_not_finite:
  "\<forall>a. x \<noteq> Finite a \<Longrightarrow> pmi_prod_checked u ws x \<noteq> Inr (Finite p)"
proof (induction ws arbitrary: x)
  case Nil
  then show ?case by simp
next
  case (Cons w ws)
  have "\<forall>a. float_times x r \<noteq> Finite a" for r using Cons.prems by (cases x) simp_all
  then have "pmi_prod_checked u ws (float_times x r) \<noteq> Inr (Finite p)" for r
    by (rule Cons.IH)
  then show ?case by (simp split: sum.splits)
qed

lemma pmi_prod_checked_result:
  "pmi_prod_checked u ws (Finite a) = Inr (Finite p) \<Longrightarrow>
     p = a * prod_list (map (\<lambda>w. real (dict_get w 0 u) + 1 / 100) ws)"
proof (induction ws arbitrary: a)
  case Nil
  then show ?case by simp
next
  case (Cons w ws)
  let ?c = "real (dict_get w 0 u) + 1 / 100"
  have r: "pmi_prod_checked u ws (float_times (Finite a) ?c) = Inr (Finite p)"
    using Cons.prems by (simp add: float_of_int_def split: if_splits)
  show ?case
  proof (cases "a * ?c < float_limit")
    case True
    then have "pmi_prod_checked u ws (Finite (a * ?c)) = Inr (Finite p)" using r by (simp add: float_box_def)
    then have "p = a * ?c * prod_list (map (\<lambda>w. real (dict_get w 0 u) + 1 / 100) ws)" by (rule Cons.IH)
    then show ?thesis by (simp add: mult.assoc)
  next
    case False
    then have "pmi_prod_checked u ws PosInf = Inr (Finite p)" using r by (simp add: float_box_def)
    then show ?thesis using pmi_prod_checked_not_finite [of PosInf u ws p] by simp
  qed
qed

text \<open>Wherever \<open>pmi_checked\<close> returns a finite float, it is \<open>pmi\<close>.\<close>

lemma pmi_checked_finite:
  assumes r: "pmi_checked phrase c u T n = Inr (Finite v)"
  shows "v = pmi phrase c u T n"
proof (cases "T \<le> 0 \<or> c \<le> 0 \<or> n < 2 \<or> int (length (py_split phrase)) \<noteq> n")
  case True
  then show ?thesis using r by (auto simp: pmi_checked_def pmi_def Let_def)
next
  case False
  let ?ws = "py_split phrase"
  let ?num = "(real_of_int c + 1 / 100) * (real_of_int T + 1 / 100) ^ nat (n - 1)"
  from r False obtain prd q l where
    p: "pmi_prod_checked u ?ws (Finite 1) = Inr prd"
    and d: "float_div (float_box ?num) (float_plus prd (1 / 10 ^ 10)) = Inr q"
    and lg: "float_log2 q = Inr l" and rd: "float_round2 l = Finite v"
    by (auto simp: pmi_checked_def Let_def float_of_int_def float_pow_def split: sum.splits if_splits)
  from rd obtain v' where l: "l = Finite v'" and v: "v = py_round2 v'" by (cases l) auto
  from lg l obtain x where q: "q = Finite x" and x: "0 < x" and v': "v' = log 2 x"
    by (cases q) (auto split: if_splits)
  from d q x obtain b where den: "float_plus prd (1 / 10 ^ 10) = Finite b" and xa: "x = ?num / b"
    by (cases "float_box ?num"; cases "float_plus prd (1 / 10 ^ 10)")
       (auto simp: float_box_def split: if_splits)
  from den obtain P where prd: "prd = Finite P" and b: "b = P + 1 / 10 ^ 10"
    by (cases prd) (auto simp: float_box_def split: if_splits)
  have "P = pmi_prod u ?ws" using pmi_prod_checked_result [of u ?ws 1 P] p prd
    by (simp add: pmi_prod_prod_list)
  then show ?thesis using False v v' xa b by (simp add: pmi_def pmi_value_def Let_def)
qed






subsection \<open>Raising a unigram count\<close>

lemma pmi_value_strict:
  assumes "0 < c" "0 < T" "v = w1 \<or> v = w2"
    and "dict_get v 0 u < dict_get v 0 u'"
    and "\<forall>w. w \<noteq> v \<longrightarrow> dict_get w 0 u' = dict_get w 0 u"
  shows "pmi_value [w1, w2] c u' T 2 < pmi_value [w1, w2] c u T 2"
proof -
  let ?g = "\<lambda>u w. real (dict_get w 0 u) + 1 / 100"
  have ge: "?g u w \<le> ?g u' w" for w using assms(4,5) by (cases "w = v") auto
  have pos: "0 < real (dict_get w 0 uu) + 1 / 100" for uu :: "(string \<times> nat) list" and w
    by (simp add: add_nonneg_pos)
  have "?g u w1 * ?g u w2 < ?g u' w1 * ?g u' w2"
  proof (cases "v = w1")
    case True
    then have "?g u w1 < ?g u' w1" using assms(4) by simp
    then show ?thesis using ge [of w2] pos
      by (intro mult_less_le_imp_less) simp_all
  next
    case False
    then have "v = w2" using assms(3) by simp
    then have "?g u w2 < ?g u' w2" using assms(4) by simp
    then show ?thesis using ge [of w1] pos
      by (intro mult_le_less_imp_less) simp_all
  qed
  then have p: "pmi_prod u [w1, w2] < pmi_prod u' [w1, w2]"
    by (simp add: pmi_prod_prod_list)
  have num: "0 < (real_of_int c + 1 / 100) * (real_of_int T + 1 / 100) ^ nat (2 - 1)"
    using assms(1,2) by (simp add: add_pos_pos)
  have "(real_of_int c + 1 / 100) * (real_of_int T + 1 / 100) ^ nat (2 - 1) / (pmi_prod u' [w1, w2] + 1 / 10 ^ 10)
      < (real_of_int c + 1 / 100) * (real_of_int T + 1 / 100) ^ nat (2 - 1) / (pmi_prod u [w1, w2] + 1 / 10 ^ 10)"
    using p num pmi_prod_pos [of u "[w1, w2]"] pmi_prod_pos [of u' "[w1, w2]"]
    by (intro divide_strict_left_mono) (simp_all add: add_pos_pos)
  moreover have "0 < (real_of_int c + 1 / 100) * (real_of_int T + 1 / 100) ^ nat (2 - 1) / (pmi_prod u' [w1, w2] + 1 / 10 ^ 10)"
    using num pmi_prod_pos [of u' "[w1, w2]"] by (intro divide_pos_pos add_pos_pos) simp_all
  ultimately show ?thesis
    unfolding pmi_value_def Let_def by (subst log_less_cancel_iff) simp_all
qed

lemma pmi_reckon_folks_99999:
  "pmi ''reckon folks'' 1 [(''reckon'', 99999), (''folks'', 1)] 100000 2 = 0"
  by (simp add: pmi_def py_split_reckon_folks pmi_value_def pmi_prod_def dict_get_def
      py_round2_def log2_near_one)

lemma pmi_reckon_folks_100000:
  "pmi ''reckon folks'' 1 [(''reckon'', 100000), (''folks'', 1)] 100000 2 = 0"
  by (simp add: pmi_def py_split_reckon_folks pmi_value_def pmi_prod_def dict_get_def
      py_round2_def log2_near_one)

text \<open>
  C3, as stated, fails: the value returned is rounded to two decimals.  With the bigram
  ``reckon folks'' seen once among 100000 tokens and ``folks'' seen once, raising the
  count of ``reckon'' from 99999 to 100000 does not lower the value returned (it is 0.00
  both times).
\<close>

theorem pmi_bigram_not_strict:
  "\<not> pmi ''reckon folks'' 1 [(''reckon'', 100000), (''folks'', 1)] 100000 2
     < pmi ''reckon folks'' 1 [(''reckon'', 99999), (''folks'', 1)] 100000 2"
  unfolding pmi_reckon_folks_99999 pmi_reckon_folks_100000 by simp

text \<open>
  C3, amended.  For a bigram ``w1 w2'' with positive phrase count and positive total
  token count, raising the unigram count of \<open>w1\<close> or of \<open>w2\<close>, all other counts
  fixed, strictly lowers the value before rounding and never raises the rounded value
  that \<open>pmi\<close> returns.
\<close>

theorem pmi_bigram_monotone:
  assumes "py_split phrase = [w1, w2]" "0 < c" "0 < T" "v = w1 \<or> v = w2"
    and "dict_get v 0 u < dict_get v 0 u'"
    and "\<forall>w. w \<noteq> v \<longrightarrow> dict_get w 0 u' = dict_get w 0 u"
  shows "pmi_value (py_split phrase) c u' T 2 < pmi_value (py_split phrase) c u T 2
       \<and> pmi phrase c u' T 2 \<le> pmi phrase c u T 2"
proof -
  have s: "pmi_value [w1, w2] c u' T 2 < pmi_value [w1, w2] c u T 2"
    using assms(2-6) by (rule pmi_value_strict)
  then have "py_round2 (pmi_value [w1, w2] c u' T 2) \<le> py_round2 (pmi_value [w1, w2] c u T 2)"
    by (intro py_round2_mono) simp
  then show ?thesis using s assms(1-3) by (simp add: pmi_def)
qed

theorem pmi_bigram_monotone_witness:
  "pmi_value (py_split ''reckon folks'') 1 [(''reckon'', 100000), (''folks'', 1)] 100000 2
     < pmi_value (py_split ''reckon folks'') 1 [(''reckon'', 99999), (''folks'', 1)] 100000 2
   \<and> pmi ''reckon folks'' 1 [(''reckon'', 100000), (''folks'', 1)] 100000 2
     \<le> pmi ''reckon folks'' 1 [(''reckon'', 99999), (''folks'', 1)] 100000 2"
  by (rule pmi_bigram_monotone [where ?w1.0 = "''reckon''" and ?w2.0 = "''folks''" and v = "''reckon''"])
     (simp_all add: py_split_reckon_folks dict_get_def)

section \<open>Counters, sorting and the vocabulary\<close>

subsection \<open>Counters\<close>

lemma counter_inc_keys: "fst ` set (counter_inc k m) = insert k (fst ` set m)"
  by (induction k m rule: counter_inc.induct) auto

lemma counter_inc_distinct: "distinct (map fst m) \<Longrightarrow> distinct (map fst (counter_inc k m))"
  by (induction k m rule: counter_inc.induct) (auto simp: counter_inc_keys)

lemma counter_inc_get:
  "dict_get k' 0 (counter_inc k m) = dict_get k' 0 m + (if k' = k then 1 else 0)"
  by (induction k m rule: counter_inc.induct) (auto simp: dict_get_def)

lemma counter_inc_fresh: "k \<notin> fst ` set m \<Longrightarrow> counter_inc k m = m @ [(k, 1)]"
  by (induction k m rule: counter_inc.induct) auto

lemma fold_counter_inc_keys: "fst ` set (fold counter_inc ks m) = set ks \<union> fst ` set m"
  by (induction ks arbitrary: m) (auto simp: counter_inc_keys)

lemma fold_counter_inc_distinct:
  "distinct (map fst m) \<Longrightarrow> distinct (map fst (fold counter_inc ks m))"
  by (induction ks arbitrary: m) (auto simp: counter_inc_distinct)

lemma fold_counter_inc_get:
  "dict_get k 0 (fold counter_inc ks m) = dict_get k 0 m + count_list ks k"
  by (induction ks arbitrary: m) (auto simp: counter_inc_get)

lemma dict_get_member: "distinct (map fst m) \<Longrightarrow> (k, v) \<in> set m \<Longrightarrow> dict_get k d m = v"
  by (simp add: dict_get_def)

lemma counter_member_count:
  assumes "kc \<in> set (fold counter_inc ks [])"
  shows "snd kc = count_list ks (fst kc)"
proof -
  have d: "distinct (map fst (fold counter_inc ks []))" by (rule fold_counter_inc_distinct) simp
  have "(fst kc, snd kc) \<in> set (fold counter_inc ks [])" using assms by simp
  from dict_get_member [OF d this, of 0] have "dict_get (fst kc) 0 (fold counter_inc ks []) = snd kc" .
  then show ?thesis by (simp add: fold_counter_inc_get) (simp add: dict_get_def)
qed

lemma fold_counter_inc_fresh:
  "distinct ks \<Longrightarrow> set ks \<inter> fst ` set m = {} \<Longrightarrow>
     fold counter_inc ks m = m @ map (\<lambda>k. (k, 1)) ks"
proof (induction ks arbitrary: m)
  case Nil
  then show ?case by simp
next
  case (Cons k ks)
  have "counter_inc k m = m @ [(k, 1)]" using Cons.prems by (intro counter_inc_fresh) auto
  moreover have "set ks \<inter> fst ` set (m @ [(k, 1)]) = {}" using Cons.prems by auto
  ultimately show ?case using Cons.IH [of "m @ [(k, 1)]"] Cons.prems by simp
qed

subsection \<open>Sorting and truncation\<close>

lemma sorted_take_drop_le:
  assumes "sorted (map f ys)" "x \<in> set (take n ys)" "y \<in> set (drop n ys)"
  shows "f x \<le> f y"
proof -
  have "sorted (map f (take n ys) @ map f (drop n ys))"
    using assms(1) by (simp flip: map_append)
  then show ?thesis using assms(2,3) by (auto simp: sorted_append)
qed

subsection \<open>The vocabulary loop\<close>

lemma fold_vocab_step:
  "fold vocab_step tokens (c, s, t) =
     (fold counter_inc (vocab_lemmas tokens) c,
      fold (\<lambda>tok. dict_add (tok_lemma tok) (tok_text tok)) (filter vocab_counted tokens) s,
      t + length (filter (\<lambda>tok. \<not> vocab_skipped tok) tokens))"
  by (induction tokens arbitrary: c s t)
     (auto simp: vocab_step_def vocab_lemmas_def vocab_counted_def vocab_skipped_def)

lemma vocab_counted_not_skipped: "vocab_counted tok \<Longrightarrow> \<not> vocab_skipped tok"
  by (simp add: vocab_counted_def vocab_skipped_def)

lemma vocab_total_zero:
  "length (filter (\<lambda>tok. \<not> vocab_skipped tok) tokens) = 0 \<Longrightarrow> vocab_lemmas tokens = []"
  by (auto simp: vocab_lemmas_def filter_empty_conv dest: vocab_counted_not_skipped)

text \<open>The result as one expression: with no token counted the list of entries is empty.\<close>

lemma extract_vocabulary_eq:
  "\<exists>sbl tt. extract_vocabulary enum tokens =
     take 1000 (sort_key vocab_key
       (map (vocab_entry enum sbl tt) (fold counter_inc (vocab_lemmas tokens) [])))"
proof (cases "length (filter (\<lambda>tok. \<not> vocab_skipped tok) tokens) = 0")
  case True
  then have "vocab_lemmas tokens = []" by (rule vocab_total_zero)
  then show ?thesis using True by (simp add: extract_vocabulary_def fold_vocab_step)
next
  case False
  then show ?thesis by (auto simp: extract_vocabulary_def fold_vocab_step)
qed

lemma vocab_entry_fields [simp]:
  "v_t (vocab_entry enum sbl tt lc) = fst lc"
  "v_c (vocab_entry enum sbl tt lc) = snd lc"
  "v_r (vocab_entry enum sbl tt lc) = rarity_tier (fst lc)"
  by (simp_all add: vocab_entry_def Let_def)

lemma extract_vocabulary_entries:
  assumes "x \<in> set (extract_vocabulary enum tokens)"
  shows "v_t x \<in> set (vocab_lemmas tokens) \<and> v_r x = rarity_tier (v_t x)
       \<and> v_c x = count_list (vocab_lemmas tokens) (v_t x)"
proof -
  obtain sbl tt where e: "extract_vocabulary enum tokens =
     take 1000 (sort_key vocab_key
       (map (vocab_entry enum sbl tt) (fold counter_inc (vocab_lemmas tokens) [])))"
    using extract_vocabulary_eq by blast
  from assms have "x \<in> set (map (vocab_entry enum sbl tt) (fold counter_inc (vocab_lemmas tokens) []))"
    unfolding e by (auto dest: in_set_takeD)
  then obtain kc where kc: "kc \<in> set (fold counter_inc (vocab_lemmas tokens) [])"
      and x: "x = vocab_entry enum sbl tt kc" by auto
  have "fst kc \<in> set (vocab_lemmas tokens)"
    using kc fold_counter_inc_keys [of "vocab_lemmas tokens" "[]"] by auto
  then show ?thesis using counter_member_count [OF kc] x by simp
qed

lemma vocab_lemmas_not_common: "l \<in> set (vocab_lemmas tokens) \<Longrightarrow> \<not> is_common_lemma l"
  by (auto simp: vocab_lemmas_def vocab_counted_def)

text \<open>
  C10.  Every entry of the result of \<open>extract_vocabulary\<close> has rarity tier 1 or 2:
  a lemma is counted only when \<open>is_common_lemma\<close> is false of it, and for every such
  lemma, a whitespace-only one included, \<open>rarity_tier\<close> is 1 or 2.
\<close>

theorem vocabulary_never_common:
  "(\<not> is_common_lemma l \<longrightarrow> rarity_tier l = 1 \<or> rarity_tier l = 2) \<and>
   (\<forall>x \<in> set (extract_vocabulary enum tokens). v_r x = 1 \<or> v_r x = 2)"
proof (intro conjI impI ballI)
  assume "\<not> is_common_lemma l"
  then show "rarity_tier l = 1 \<or> rarity_tier l = 2" by (rule rarity_tier_not_common)
next
  fix x assume "x \<in> set (extract_vocabulary enum tokens)"
  then have "v_t x \<in> set (vocab_lemmas tokens)" and r: "v_r x = rarity_tier (v_t x)"
    by (simp_all add: extract_vocabulary_entries)
  then have "\<not> is_common_lemma (v_t x)" by (simp add: vocab_lemmas_not_common)
  then show "v_r x = 1 \<or> v_r x = 2" unfolding r by (rule rarity_tier_not_common)
qed

lemma extract_vocabulary_sorted:
  "sorted (map vocab_key (extract_vocabulary enum tokens))"
proof -
  obtain sbl tt where e: "extract_vocabulary enum tokens =
     take 1000 (sort_key vocab_key
       (map (vocab_entry enum sbl tt) (fold counter_inc (vocab_lemmas tokens) [])))"
    using extract_vocabulary_eq by blast
  show ?thesis unfolding e take_map [symmetric] by simp
qed

lemma vocab_key_le:
  "vocab_key x \<le> vocab_key y \<longleftrightarrow> v_r y < v_r x \<or> (v_r x = v_r y \<and> v_c y \<le> v_c x)"
  by (auto simp: vocab_key_def)

lemma distinct_map_sort_key:
  "distinct (map f xs) \<Longrightarrow> distinct (map f (sort_key k xs))"
  by (simp add: distinct_map)

lemma extract_vocabulary_keys:
  "distinct (map v_t (extract_vocabulary enum tokens)) \<and>
   length (extract_vocabulary enum tokens) = min 1000 (card (set (vocab_lemmas tokens)))"
proof -
  obtain sbl tt where e: "extract_vocabulary enum tokens =
     take 1000 (sort_key vocab_key
       (map (vocab_entry enum sbl tt) (fold counter_inc (vocab_lemmas tokens) [])))"
    using extract_vocabulary_eq by blast
  let ?c = "fold counter_inc (vocab_lemmas tokens) []"
  let ?es = "map (vocab_entry enum sbl tt) ?c"
  have d: "distinct (map fst ?c)" by (rule fold_counter_inc_distinct) simp
  have m: "map v_t ?es = map fst ?c" by simp
  have de: "distinct (map v_t ?es)" unfolding m using d .
  then have "distinct (map v_t (sort_key vocab_key ?es))"
    by (rule distinct_map_sort_key)
  then have 1: "distinct (map v_t (extract_vocabulary enum tokens))"
    unfolding e take_map [symmetric] by (rule distinct_take)
  have "card (set (vocab_lemmas tokens)) = card (set (map fst ?c))"
    using fold_counter_inc_keys [of "vocab_lemmas tokens" "[]"] by simp
  also have "\<dots> = length ?c" using d distinct_card [of "map fst ?c"] by simp
  finally have 2: "length (extract_vocabulary enum tokens) = min 1000 (card (set (vocab_lemmas tokens)))"
    unfolding e by (simp add: min.commute)
  show ?thesis using 1 2 by simp
qed

lemma extract_vocabulary_top:
  assumes x: "x \<in> set (extract_vocabulary enum tokens)"
    and l: "l \<in> set (vocab_lemmas tokens) - v_t ` set (extract_vocabulary enum tokens)"
  shows "rarity_tier l < v_r x \<or>
         (rarity_tier l = v_r x \<and> count_list (vocab_lemmas tokens) l \<le> v_c x)"
proof -
  obtain sbl tt where e: "extract_vocabulary enum tokens =
     take 1000 (sort_key vocab_key
       (map (vocab_entry enum sbl tt) (fold counter_inc (vocab_lemmas tokens) [])))"
    using extract_vocabulary_eq by blast
  let ?c = "fold counter_inc (vocab_lemmas tokens) []"
  let ?ys = "sort_key vocab_key (map (vocab_entry enum sbl tt) ?c)"
  have "l \<in> fst ` set ?c" using l fold_counter_inc_keys [of "vocab_lemmas tokens" "[]"] by simp
  then obtain kc where kc: "kc \<in> set ?c" and lk: "l = fst kc" by auto
  let ?y = "vocab_entry enum sbl tt kc"
  have yin: "?y \<in> set ?ys" using kc by simp
  have "?y \<notin> set (take 1000 ?ys)"
  proof
    assume "?y \<in> set (take 1000 ?ys)"
    then have "v_t ?y \<in> v_t ` set (extract_vocabulary enum tokens)" unfolding e by (rule imageI)
    then show False using l lk by simp
  qed
  then have "?y \<in> set (drop 1000 ?ys)"
    using yin set_append [of "take 1000 ?ys" "drop 1000 ?ys"] by (simp del: set_append)
  moreover have "sorted (map vocab_key ?ys)" by simp
  moreover have "x \<in> set (take 1000 ?ys)" using x unfolding e .
  ultimately have "vocab_key x \<le> vocab_key ?y" by (intro sorted_take_drop_le [where ys = ?ys and n = 1000])
  then show ?thesis using counter_member_count [OF kc] lk by (auto simp: vocab_key_le)
qed

text \<open>
  C5.  The result of \<open>extract_vocabulary\<close> is sorted by rarity tier descending, then
  by count descending; it has one entry for each of at most 1000 distinct counted lemmas
  (exactly 1000 when there are more), each with the tier and the count of its lemma; and
  no counted lemma left out has a higher (tier, count) key than an entry of the result.
\<close>

theorem extract_vocabulary_sorted_capped:
  "sorted_wrt (\<lambda>x y. v_r y < v_r x \<or> (v_r x = v_r y \<and> v_c y \<le> v_c x)) (extract_vocabulary enum tokens)
   \<and> length (extract_vocabulary enum tokens) = min 1000 (card (set (vocab_lemmas tokens)))
   \<and> distinct (map v_t (extract_vocabulary enum tokens))
   \<and> (\<forall>x \<in> set (extract_vocabulary enum tokens).
         v_t x \<in> set (vocab_lemmas tokens) \<and> v_r x = rarity_tier (v_t x)
         \<and> v_c x = count_list (vocab_lemmas tokens) (v_t x))
   \<and> (\<forall>x \<in> set (extract_vocabulary enum tokens).
       \<forall>l \<in> set (vocab_lemmas tokens) - v_t ` set (extract_vocabulary enum tokens).
         rarity_tier l < v_r x \<or>
         (rarity_tier l = v_r x \<and> count_list (vocab_lemmas tokens) l \<le> v_c x))"
proof (intro conjI ballI)
  have "sorted_wrt (\<lambda>x y. vocab_key x \<le> vocab_key y) (extract_vocabulary enum tokens)"
    using extract_vocabulary_sorted [of enum tokens] by (simp add: sorted_map)
  then show "sorted_wrt (\<lambda>x y. v_r y < v_r x \<or> (v_r x = v_r y \<and> v_c y \<le> v_c x)) (extract_vocabulary enum tokens)"
    by (simp add: vocab_key_le)
next
  show "length (extract_vocabulary enum tokens) = min 1000 (card (set (vocab_lemmas tokens)))"
    by (simp add: extract_vocabulary_keys)
next
  show "distinct (map v_t (extract_vocabulary enum tokens))"
    by (simp add: extract_vocabulary_keys)
next
  fix x assume "x \<in> set (extract_vocabulary enum tokens)"
  then show "v_t x \<in> set (vocab_lemmas tokens)" "v_r x = rarity_tier (v_t x)"
    "v_c x = count_list (vocab_lemmas tokens) (v_t x)"
    by (simp_all add: extract_vocabulary_entries)
next
  fix x l assume "x \<in> set (extract_vocabulary enum tokens)"
    "l \<in> set (vocab_lemmas tokens) - v_t ` set (extract_vocabulary enum tokens)"
  then show "rarity_tier l < v_r x \<or>
         (rarity_tier l = v_r x \<and> count_list (vocab_lemmas tokens) l \<le> v_c x)"
    by (rule extract_vocabulary_top)
qed

subsection \<open>The words z, zz, zzz, ...\<close>

lemma zword_inj [simp]: "zword i = zword j \<longleftrightarrow> i = j"
proof
  assume "zword i = zword j"
  then have "length (zword i) = length (zword j)" by simp
  then show "i = j" by (simp add: zword_def)
qed simp

lemma py_isspace_z [simp]: "\<not> py_isspace CHR ''z''"
  by (simp add: py_isspace_def)

lemma py_lower_char_z [simp]: "py_lower_char CHR ''z'' = CHR ''z''"
  by (simp add: py_lower_char_def)

lemma py_lower_zword [simp]: "py_lower (zword i) = zword i"
  by (simp add: py_lower_def zword_def)

lemma py_strip_zword [simp]: "py_strip (zword i) = zword i"
  by (simp only: py_strip_def zword_def dropWhile_replicate rev_replicate py_isspace_z if_False)

lemma common_all_no_z: "list_all (\<lambda>w. hd w \<noteq> CHR ''z'') COMMON_LEMMAS"
  by (simp add: COMMON_LEMMAS_def)

lemma moderate_all_no_z: "list_all (\<lambda>w. hd w \<noteq> CHR ''z'') MODERATE_LEMMAS"
  by (simp add: MODERATE_LEMMAS_def)

lemma common_no_z: "w \<in> set COMMON_LEMMAS \<Longrightarrow> hd w \<noteq> CHR ''z''"
  using common_all_no_z by (simp add: list_all_iff)

lemma moderate_no_z: "w \<in> set MODERATE_LEMMAS \<Longrightarrow> hd w \<noteq> CHR ''z''"
  using moderate_all_no_z by (simp add: list_all_iff)

lemma zword_not_common [simp]: "zword i \<notin> set COMMON_LEMMAS"
  using common_no_z [of "zword i"] by (auto simp: zword_def)

lemma zword_not_moderate [simp]: "zword i \<notin> set MODERATE_LEMMAS"
  using moderate_no_z [of "zword i"] by (auto simp: zword_def)

lemma zword_nonempty [simp]: "zword i \<noteq> []"
  by (simp add: zword_def)

lemma zword_tier [simp]: "rarity_tier (zword i) = 2" "\<not> is_common_lemma (zword i)"
  by (simp_all add: rarity_tier_def is_common_lemma_def)

lemma ztoken_counted [simp]: "vocab_counted (ztoken i)"
  by (simp add: vocab_counted_def ztoken_def CONTENT_POS_def)

lemma ztoken_lemma [simp]: "tok_lemma (ztoken i) = zword i"
  by (simp add: ztoken_def)

lemma vocab_lemmas_ztokens [simp]: "vocab_lemmas (map ztoken is) = map zword is"
  by (induction "is") (simp_all add: vocab_lemmas_def)

lemma take_upt_min: "take m [0..<n] = [0..<min m n]"
  by (cases "m \<le> n") (simp_all add: min_def)

lemma distinct_zwords [simp]: "distinct (map zword is) = distinct is"
  by (simp add: distinct_map inj_on_def)

lemma extract_vocabulary_ztokens:
  "map v_t (extract_vocabulary enum (map ztoken [0..<n])) = map zword [0..<min 1000 n]"
proof -
  obtain sbl tt where e: "extract_vocabulary enum (map ztoken [0..<n]) =
     take 1000 (sort_key vocab_key
       (map (vocab_entry enum sbl tt) (fold counter_inc (vocab_lemmas (map ztoken [0..<n])) [])))"
    using extract_vocabulary_eq by blast
  have c: "fold counter_inc (map zword [0..<n]) [] = map (\<lambda>k. (k, 1)) (map zword [0..<n])"
    using fold_counter_inc_fresh [of "map zword [0..<n]" "[]"] by simp
  let ?es = "map (vocab_entry enum sbl tt) (map (\<lambda>k. (k, 1)) (map zword [0..<n]))"
  have "map vocab_key ?es = map (\<lambda>i. (-2, -1)) [0..<n]"
    by (simp add: vocab_key_def)
  then have "sorted (map vocab_key ?es)" by (simp add: sorted_map del: map_map)
  then have s: "sort_key vocab_key ?es = ?es" by (rule sort_key_id_if_sorted)
  show ?thesis unfolding e vocab_lemmas_ztokens c s
    by (simp add: take_map comp_def take_upt_min)
qed

text \<open>
  With 1001 distinct counted lemmas, all rare and seen once, the result has 1000 entries
  and the lemma of the last token is left out; its key is not above the first entry's.
\<close>

theorem extract_vocabulary_sorted_capped_witness:
  "length (extract_vocabulary insertion_order ztokens) = 1000
   \<and> hd (extract_vocabulary insertion_order ztokens) \<in> set (extract_vocabulary insertion_order ztokens)
   \<and> zword 1000 \<in> set (vocab_lemmas ztokens) - v_t ` set (extract_vocabulary insertion_order ztokens)
   \<and> (rarity_tier (zword 1000) < v_r (hd (extract_vocabulary insertion_order ztokens)) \<or>
       (rarity_tier (zword 1000) = v_r (hd (extract_vocabulary insertion_order ztokens)) \<and>
        count_list (vocab_lemmas ztokens) (zword 1000)
          \<le> v_c (hd (extract_vocabulary insertion_order ztokens))))"
proof -
  let ?out = "extract_vocabulary insertion_order ztokens"
  have names: "map v_t ?out = map zword [0..<1000]"
    unfolding ztokens_def using extract_vocabulary_ztokens [of insertion_order 1001] by simp
  have "length (map v_t ?out) = 1000" unfolding names by simp
  then have len: "length ?out = 1000" by simp
  then have "?out \<noteq> []" by auto
  then have h: "hd ?out \<in> set ?out" by simp
  have "v_t ` set ?out = set (map v_t ?out)" by simp
  also have "\<dots> = zword ` {0..<1000}" unfolding names by simp
  finally have "zword 1000 \<notin> v_t ` set ?out" by auto
  moreover have "zword 1000 \<in> set (vocab_lemmas ztokens)" by (simp add: ztokens_def)
  ultimately have l: "zword 1000 \<in> set (vocab_lemmas ztokens) - v_t ` set ?out" by simp
  from extract_vocabulary_sorted_capped [of insertion_order ztokens] h l
  have "rarity_tier (zword 1000) < v_r (hd ?out) \<or>
       (rarity_tier (zword 1000) = v_r (hd ?out) \<and>
        count_list (vocab_lemmas ztokens) (zword 1000) \<le> v_c (hd ?out))"
    by blast
  then show ?thesis using len h l by blast
qed

lemma go_common: "''go'' \<in> set COMMON_LEMMAS"
  by (simp add: COMMON_LEMMAS_def)

lemma reckon_not_common: "''reckon'' \<notin> set COMMON_LEMMAS"
  by (simp add: COMMON_LEMMAS_def)

lemma reckon_not_moderate: "''reckon'' \<notin> set MODERATE_LEMMAS"
  by (simp add: MODERATE_LEMMAS_def)

lemma py_lower_go: "py_lower ''go'' = ''go''" "py_lower ''reckon'' = ''reckon''"
  by (simp_all add: py_lower_def py_lower_char_def)

lemma py_strip_go: "py_strip ''go'' = ''go''" "py_strip ''reckon'' = ''reckon''"
  by (simp_all add: py_strip_def py_isspace_def)

lemma classify_go_reckon:
  "is_common_lemma ''go''" "\<not> is_common_lemma ''reckon''" "rarity_tier ''reckon'' = 2"
  by (simp_all add: is_common_lemma_def rarity_tier_def py_lower_go py_strip_go go_common
      reckon_not_common reckon_not_moderate)

lemma classify_blank:
  "\<not> is_common_lemma '' ''" "rarity_tier '' '' = 2"
  by (simp_all add: rarity_tier_def is_common_lemma_def py_lower_def py_strip_def
      blank_not_common blank_not_moderate)

text \<open>
  C4 (the code departs from the claim).  The claim: the rate of an entry is
  \<open>round(count / total * 10000, 2)\<close> with \<open>total\<close> the number of all tokens
  supplied, common lemmas included.  On the two content tokens ``go'' (common) and
  ``reckon'' the code gives ``reckon'' the rate 10000.00, not 5000.00: the
  \<open>continue\<close> taken for a common lemma skips \<open>total_tokens += 1\<close>.
\<close>

theorem extract_vocabulary_rate_skips_common:
  "extract_vocabulary insertion_order
     [\<lparr>tok_text = ''go'', tok_lemma = ''go'', tok_norm = ''go'', tok_pos = ''VERB'',
       tok_dep = ''ROOT'', tok_is_stop = False\<rparr>,
      \<lparr>tok_text = ''reckon'', tok_lemma = ''reckon'', tok_norm = ''reckon'', tok_pos = ''VERB'',
       tok_dep = ''ROOT'', tok_is_stop = False\<rparr>]
   = [\<lparr>v_t = ''reckon'', v_c = 1, v_p10k = 10000, v_r = 2, v_surfaces = Some [''reckon'']\<rparr>]"
  by (simp add: extract_vocabulary_def vocab_step_def CONTENT_POS_def classify_go_reckon
      vocab_entry_def dict_get_def insertion_order_def set_add_def py_round2_def)

lemma extract_vocabulary_blank:
  "extract_vocabulary insertion_order
     [\<lparr>tok_text = '' '', tok_lemma = '' '', tok_norm = '' '', tok_pos = ''NOUN'',
       tok_dep = ''ROOT'', tok_is_stop = False\<rparr>]
   = [\<lparr>v_t = '' '', v_c = 1, v_p10k = 10000, v_r = 2, v_surfaces = Some ['' '']\<rparr>]"
  by (simp add: extract_vocabulary_def vocab_step_def CONTENT_POS_def classify_blank
      vocab_entry_def dict_get_def insertion_order_def set_add_def py_round2_def)

text \<open>A token whose lemma is one space is counted, and its entry has tier 2.\<close>

theorem vocabulary_never_common_witness:
  "\<not> is_common_lemma '' '' \<and> (rarity_tier '' '' = 1 \<or> rarity_tier '' '' = 2) \<and>
   \<lparr>v_t = '' '', v_c = 1, v_p10k = 10000, v_r = 2, v_surfaces = Some ['' '']\<rparr>
     \<in> set (extract_vocabulary insertion_order
         [\<lparr>tok_text = '' '', tok_lemma = '' '', tok_norm = '' '', tok_pos = ''NOUN'',
           tok_dep = ''ROOT'', tok_is_stop = False\<rparr>]) \<and>
   (v_r \<lparr>v_t = '' '', v_c = 1, v_p10k = 10000, v_r = 2, v_surfaces = Some ['' '']\<rparr> = 1 \<or>
    v_r \<lparr>v_t = '' '', v_c = 1, v_p10k = 10000, v_r = 2, v_surfaces = Some ['' '']\<rparr> = 2)"
  using vocabulary_never_common [of "'' ''" insertion_order
      "[\<lparr>tok_text = '' '', tok_lemma = '' '', tok_norm = '' '', tok_pos = ''NOUN'',
         tok_dep = ''ROOT'', tok_is_stop = False\<rparr>]"]
  by (simp add: extract_vocabulary_blank classify_blank)

section \<open>Pattern aggregation\<close>

subsection \<open>Dictionaries\<close>

lemma map_of_dict_set: "map_of (dict_set k v m) = (map_of m)(k \<mapsto> v)"
  by (induction k v m rule: dict_set.induct) auto

lemma dict_get_dict_add:
  "dict_get k [] (dict_add k' x m) =
     (if k = k' then set_add x (dict_get k [] m) else dict_get k [] m)"
  by (induction k' x m rule: dict_add.induct) (auto simp: dict_get_def set_add_def)

lemma dict_get_Nil [simp]: "dict_get k d [] = d"
  by (simp add: dict_get_def)

lemma fold_dict_set_last:
  "map_of (fold (\<lambda>ob. dict_set (kf ob) (vf ob)) obs m) k =
     (if filter (\<lambda>ob. kf ob = k) obs = [] then map_of m k
      else Some (vf (last (filter (\<lambda>ob. kf ob = k) obs))))"
  by (induction obs rule: rev_induct) (auto simp: map_of_dict_set)

lemma fold_dict_add_set:
  "distinct (dict_get k [] (fold (\<lambda>ob. dict_add (kf ob) (vf ob)) obs [])) \<and>
   set (dict_get k [] (fold (\<lambda>ob. dict_add (kf ob) (vf ob)) obs []))
     = vf ` set (filter (\<lambda>ob. kf ob = k) obs)"
  by (induction obs rule: rev_induct) (auto simp: dict_get_dict_add set_add_def)

lemma fold_dict_add_length:
  "length (dict_get k [] (fold (\<lambda>ob. dict_add (kf ob) (vf ob)) obs []))
     = card (vf ` set (filter (\<lambda>ob. kf ob = k) obs))"
  using fold_dict_add_set [of k kf vf obs] distinct_card by metis

lemma count_list_map_filter: "count_list (map f xs) k = length (filter (\<lambda>x. f x = k) xs)"
  by (induction xs) simp_all

subsection \<open>The aggregation loop\<close>

lemma ap_tables_flat:
  "fold (\<lambda>dp st. fold (ap_step (fst dp)) (snd dp) st) all_patterns st =
   fold (\<lambda>ob. ap_step (fst ob) (snd ob)) (pattern_occurrences all_patterns) st"
proof (induction all_patterns arbitrary: st)
  case Nil
  then show ?case by (simp add: pattern_occurrences_def)
next
  case (Cons dp rest)
  have "fold (ap_step (fst dp)) (snd dp) st
      = fold (\<lambda>ob. ap_step (fst ob) (snd ob)) (map (Pair (fst dp)) (snd dp)) st"
    by (simp add: fold_map comp_def)
  then show ?case using Cons.IH by (simp add: pattern_occurrences_def)
qed

lemma fold_ap_step:
  "\<exists>ps'. fold (\<lambda>ob. ap_step (fst ob) (snd ob)) obs (pc, pd, pk, ps) =
     (fold counter_inc (map (\<lambda>ob. p_t (snd ob)) obs) pc,
      fold (\<lambda>ob. dict_add (p_t (snd ob)) (fst ob)) obs pd,
      fold (\<lambda>ob. dict_set (p_t (snd ob)) (p_kind (snd ob))) obs pk,
      ps')"
  by (induction obs arbitrary: pc pd pk ps) (simp_all add: ap_step_def Let_def)

lemma ap_tables_eq:
  "\<exists>ps'. ap_tables all_patterns =
     (fold counter_inc (map (\<lambda>ob. p_t (snd ob)) (pattern_occurrences all_patterns)) [],
      fold (\<lambda>ob. dict_add (p_t (snd ob)) (fst ob)) (pattern_occurrences all_patterns) [],
      fold (\<lambda>ob. dict_set (p_t (snd ob)) (p_kind (snd ob))) (pattern_occurrences all_patterns) [],
      ps')"
  unfolding ap_tables_def ap_tables_flat by (rule fold_ap_step)

lemma ap_results_all_common:
  "\<forall>pc \<in> set xs. head_lemma_is_common (fst pc) \<Longrightarrow> ap_results enum tables xs = Inr []"
  by (induction xs) simp_all

lemma ap_results_items:
  assumes "\<forall>pc \<in> set xs. map_of (fst (snd (snd tables))) (fst pc) \<noteq> None"
  shows "ap_results enum tables xs =
     Inr (map (ap_item enum tables) (filter (\<lambda>pc. \<not> head_lemma_is_common (fst pc)) xs))"
  using assms
  by (induction xs) (auto simp: ap_item_def dict_get_def Let_def split: prod.splits)

lemma most_common_subset: "set (most_common n counter) \<subseteq> set counter"
  by (auto simp: most_common_def dest: in_set_takeD)

lemma aggregate_patterns_eq:
  "aggregate_patterns enum all_patterns =
     Inr (map (ap_item enum (ap_tables all_patterns))
            (filter (\<lambda>pc. \<not> head_lemma_is_common (fst pc))
               (most_common 1000 (fst (ap_tables all_patterns)))))"
proof -
  obtain ps' where t: "ap_tables all_patterns =
     (fold counter_inc (map (\<lambda>ob. p_t (snd ob)) (pattern_occurrences all_patterns)) [],
      fold (\<lambda>ob. dict_add (p_t (snd ob)) (fst ob)) (pattern_occurrences all_patterns) [],
      fold (\<lambda>ob. dict_set (p_t (snd ob)) (p_kind (snd ob))) (pattern_occurrences all_patterns) [],
      ps')"
    using ap_tables_eq by blast
  have "\<forall>pc \<in> set (most_common 1000 (fst (ap_tables all_patterns))).
          map_of (fst (snd (snd (ap_tables all_patterns)))) (fst pc) \<noteq> None"
  proof
    fix pc assume "pc \<in> set (most_common 1000 (fst (ap_tables all_patterns)))"
    then have "pc \<in> set (fold counter_inc (map (\<lambda>ob. p_t (snd ob)) (pattern_occurrences all_patterns)) [])"
      using most_common_subset t by fastforce
    then have "fst pc \<in> set (map (\<lambda>ob. p_t (snd ob)) (pattern_occurrences all_patterns))"
      using fold_counter_inc_keys [of "map (\<lambda>ob. p_t (snd ob)) (pattern_occurrences all_patterns)" "[]"]
      by auto
    then have "filter (\<lambda>ob. p_t (snd ob) = fst pc) (pattern_occurrences all_patterns) \<noteq> []"
      by (force simp: filter_empty_conv)
    then show "map_of (fst (snd (snd (ap_tables all_patterns)))) (fst pc) \<noteq> None"
      unfolding t by (simp add: fold_dict_set_last)
  qed
  then show ?thesis unfolding aggregate_patterns_def Let_def by (rule ap_results_items)
qed

text \<open>
  C8, amended.  \<open>aggregate_patterns\<close> returns a list, and every entry of it has the
  kind of the last occurrence of its key (in document and occurrence order), the number
  of occurrences of the key as its count and the number of distinct documents the key
  occurs in as its document frequency.
\<close>

theorem aggregate_patterns_kind_last:
  "\<exists>out. aggregate_patterns enum all_patterns = Inr out \<and>
     (\<forall>x \<in> set out.
        pattern_uses all_patterns (pi_t x) \<noteq> []
        \<and> pi_kind x = p_kind (snd (last (pattern_uses all_patterns (pi_t x))))
        \<and> pi_c x = length (pattern_uses all_patterns (pi_t x))
        \<and> pi_df x = card (fst ` set (pattern_uses all_patterns (pi_t x))))"
proof -
  let ?obs = "pattern_occurrences all_patterns"
  let ?keys = "map (\<lambda>ob. p_t (snd ob)) ?obs"
  obtain ps' where t: "ap_tables all_patterns =
     (fold counter_inc ?keys [],
      fold (\<lambda>ob. dict_add (p_t (snd ob)) (fst ob)) ?obs [],
      fold (\<lambda>ob. dict_set (p_t (snd ob)) (p_kind (snd ob))) ?obs [],
      ps')"
    using ap_tables_eq by blast
  let ?out = "map (ap_item enum (ap_tables all_patterns))
            (filter (\<lambda>pc. \<not> head_lemma_is_common (fst pc))
               (most_common 1000 (fst (ap_tables all_patterns))))"
  have "\<forall>x \<in> set ?out.
        pattern_uses all_patterns (pi_t x) \<noteq> []
        \<and> pi_kind x = p_kind (snd (last (pattern_uses all_patterns (pi_t x))))
        \<and> pi_c x = length (pattern_uses all_patterns (pi_t x))
        \<and> pi_df x = card (fst ` set (pattern_uses all_patterns (pi_t x)))"
  proof
    fix x assume "x \<in> set ?out"
    then obtain pc where pc: "pc \<in> set (most_common 1000 (fst (ap_tables all_patterns)))"
      and x: "x = ap_item enum (ap_tables all_patterns) pc" by auto
    have mem: "pc \<in> set (fold counter_inc ?keys [])" using pc most_common_subset t by fastforce
    then have "fst pc \<in> set ?keys" using fold_counter_inc_keys [of ?keys "[]"] by auto
    then have ne: "pattern_uses all_patterns (fst pc) \<noteq> []"
      by (force simp: pattern_uses_def filter_empty_conv)
    have c: "snd pc = length (pattern_uses all_patterns (fst pc))"
      using counter_member_count [OF mem]
      by (simp add: pattern_uses_def count_list_map_filter)
    have k: "dict_get (fst pc) VPO (fold (\<lambda>ob. dict_set (p_t (snd ob)) (p_kind (snd ob))) ?obs [])
           = p_kind (snd (last (pattern_uses all_patterns (fst pc))))"
      using ne by (simp add: dict_get_def fold_dict_set_last pattern_uses_def)
    have d: "length (dict_get (fst pc) [] (fold (\<lambda>ob. dict_add (p_t (snd ob)) (fst ob)) ?obs []))
           = card (fst ` set (pattern_uses all_patterns (fst pc)))"
      by (simp add: fold_dict_add_length pattern_uses_def)
    show "pattern_uses all_patterns (pi_t x) \<noteq> []
        \<and> pi_kind x = p_kind (snd (last (pattern_uses all_patterns (pi_t x))))
        \<and> pi_c x = length (pattern_uses all_patterns (pi_t x))
        \<and> pi_df x = card (fst ` set (pattern_uses all_patterns (pi_t x)))"
      unfolding x t using ne c k d by (simp add: ap_item_def Let_def)
  qed
  then show ?thesis using aggregate_patterns_eq [of enum all_patterns] by blast
qed

lemma dropWhile_hd: "xs \<noteq> [] \<Longrightarrow> \<not> P (hd xs) \<Longrightarrow> dropWhile P xs = xs"
  by (cases xs) auto

lemma py_strip_id:
  "s \<noteq> [] \<Longrightarrow> \<not> py_isspace (hd s) \<Longrightarrow> \<not> py_isspace (last s) \<Longrightarrow> py_strip s = s"
  by (simp add: py_strip_def dropWhile_hd hd_rev)

lemma flip_not_common: "''flip'' \<notin> set COMMON_LEMMAS"
  by (simp add: COMMON_LEMMAS_def)

lemma head_flip_off: "\<not> head_lemma_is_common ''flip off''"
  by (simp add: head_lemma_is_common_def py_strip_id py_isspace_def py_split_def
      py_lower_def py_lower_char_def flip_not_common)

lemma head_reckon_folks: "\<not> head_lemma_is_common ''reckon folks''"
  by (simp add: head_lemma_is_common_def py_strip_id py_isspace_def py_split_def
      py_lower_def py_lower_char_def reckon_not_common)

lemma go_key_nonempty [simp]: "go_key i \<noteq> []"
  by (simp add: go_key_def)

lemma go_key_inj [simp]: "go_key i = go_key j \<longleftrightarrow> i = j"
  by (simp add: go_key_def)

lemma go_key_not_reckon [simp]: "go_key i \<noteq> ''reckon folks''" "''reckon folks'' \<noteq> go_key i"
  by (simp_all add: go_key_def)

lemma count_list_distinct: "distinct xs \<Longrightarrow> x \<in> set xs \<Longrightarrow> count_list xs x = 1"
  by (induction xs) (auto simp: count_list_0_iff)

lemma head_go: "head_lemma_is_common (go_key i)"
proof -
  have s: "py_strip (go_key i) = go_key i"
    by (rule py_strip_id) (simp_all add: go_key_def py_isspace_def zword_def)
  have sp: "py_split (go_key i) = ''go'' # split_acc [] (zword i)"
    by (simp add: go_key_def py_split_def py_isspace_def)
  show ?thesis
    by (simp add: head_lemma_is_common_def s sp py_lower_go go_common)
qed

lemma aggregate_patterns_flip:
  "aggregate_patterns insertion_order flip_patterns =
     Inr [\<lparr>pi_t = ''flip off'', pi_kind = VO, pi_c = 2, pi_df = 2,
           pi_surfaces = Some [''flip off'']\<rparr>]"
  by (simp add: aggregate_patterns_def flip_patterns_def ap_tables_def ap_step_def
      most_common_def head_flip_off py_strip_id py_isspace_def dict_get_def set_add_def
      insertion_order_def Let_def)

lemma pattern_uses_flip:
  "pattern_uses flip_patterns ''flip off'' =
     [(''d1'', \<lparr>p_t = ''flip off'', p_kind = Phrasal, p_surface = ''flip off''\<rparr>),
      (''d2'', \<lparr>p_t = ''flip off'', p_kind = VO, p_surface = ''flip off''\<rparr>)]"
  by (simp add: pattern_uses_def pattern_occurrences_def flip_patterns_def)

text \<open>
  C8, as stated, fails: \<open>pattern_kind[key]\<close> is overwritten at every occurrence.  The
  key ``flip off'' is first seen as a phrasal verb and then as verb and object; the entry
  of the result has the kind of the second occurrence.
\<close>

theorem aggregate_patterns_kind_not_first:
  "aggregate_patterns insertion_order flip_patterns =
     Inr [\<lparr>pi_t = ''flip off'', pi_kind = VO, pi_c = 2, pi_df = 2,
           pi_surfaces = Some [''flip off'']\<rparr>]
   \<and> p_kind (snd (hd (pattern_uses flip_patterns ''flip off''))) = Phrasal"
  by (simp add: aggregate_patterns_flip pattern_uses_flip)

text \<open>The same corpus: the entry has the last kind, count 2 and document frequency 2.\<close>

theorem aggregate_patterns_kind_last_witness:
  "aggregate_patterns insertion_order flip_patterns =
     Inr [\<lparr>pi_t = ''flip off'', pi_kind = VO, pi_c = 2, pi_df = 2,
           pi_surfaces = Some [''flip off'']\<rparr>]
   \<and> pattern_uses flip_patterns ''flip off'' \<noteq> []
   \<and> p_kind (snd (last (pattern_uses flip_patterns ''flip off''))) = VO
   \<and> length (pattern_uses flip_patterns ''flip off'') = 2
   \<and> card (fst ` set (pattern_uses flip_patterns ''flip off'')) = 2"
  using aggregate_patterns_kind_last [of insertion_order flip_patterns]
  by (simp add: aggregate_patterns_flip)

lemma most_common_ones:
  "most_common n (map (\<lambda>k. (k, 1)) ks) = take n (map (\<lambda>k. (k, 1)) ks)"
proof -
  have "map (\<lambda>kc. - int (snd kc)) (map (\<lambda>k. (k, 1::nat)) ks) = map (\<lambda>k. -1) ks" by simp
  then have "sorted (map (\<lambda>kc. - int (snd kc)) (map (\<lambda>k. (k, 1::nat)) ks))"
    by (simp add: sorted_map del: map_map)
  then show ?thesis unfolding most_common_def by (simp only: sort_key_id_if_sorted)
qed

lemma go_keys_distinct:
  "distinct (map go_key [0..<n] @ [''reckon folks''])"
  by (auto simp: distinct_map inj_on_def)

text \<open>
  C7 (the code departs from the claim).  The claim: the result is the (up to) 1000
  highest-count keys among those whose head word is not common.  The code takes the 1000
  most common keys first and drops the common heads among them afterwards: with 1000
  keys headed by ``go'' ahead of ``reckon folks'', all seen once, the result is empty
  although ``reckon folks'' has a head that is not common.
\<close>

theorem aggregate_patterns_cap_before_filter:
  "aggregate_patterns insertion_order go_patterns = Inr []
   \<and> \<not> head_lemma_is_common ''reckon folks''
   \<and> length (pattern_uses go_patterns ''reckon folks'') = 1
   \<and> length (pattern_uses go_patterns (go_key 0)) = 1"
proof -
  let ?keys = "map go_key [0..<1000] @ [''reckon folks'']"
  have occ: "map (\<lambda>ob. p_t (snd ob)) (pattern_occurrences go_patterns) = ?keys"
    by (simp add: pattern_occurrences_def go_patterns_def go_pattern_def comp_def)
  obtain ps' where t: "ap_tables go_patterns =
     (fold counter_inc (map (\<lambda>ob. p_t (snd ob)) (pattern_occurrences go_patterns)) [],
      fold (\<lambda>ob. dict_add (p_t (snd ob)) (fst ob)) (pattern_occurrences go_patterns) [],
      fold (\<lambda>ob. dict_set (p_t (snd ob)) (p_kind (snd ob))) (pattern_occurrences go_patterns) [],
      ps')"
    using ap_tables_eq by blast
  have c: "fst (ap_tables go_patterns) = map (\<lambda>k. (k, 1)) ?keys"
    unfolding t occ using fold_counter_inc_fresh [OF go_keys_distinct [of 1000], of "[]"] by simp
  have "most_common 1000 (fst (ap_tables go_patterns))
      = map (\<lambda>k. (k, 1)) (map go_key [0..<1000])"
    unfolding c most_common_ones by (simp add: take_map)
  then have "filter (\<lambda>pc. \<not> head_lemma_is_common (fst pc))
               (most_common 1000 (fst (ap_tables go_patterns))) = []"
    by (simp add: filter_empty_conv head_go)
  then have 1: "aggregate_patterns insertion_order go_patterns = Inr []"
    by (simp add: aggregate_patterns_eq)
  have u: "length (pattern_uses go_patterns k) = count_list ?keys k" for k
    unfolding occ [symmetric] by (simp add: pattern_uses_def count_list_map_filter)
  have 2: "count_list ?keys ''reckon folks'' = 1"
    by (rule count_list_distinct [OF go_keys_distinct]) simp
  have 3: "count_list ?keys (go_key 0) = 1"
    by (rule count_list_distinct [OF go_keys_distinct]) simp
  show ?thesis using 1 head_reckon_folks 2 3 by (simp add: u)
qed

section \<open>Learning phrases\<close>

subsection \<open>Sorting commutes with a projection the key factors through\<close>

lemma insort_key_map:
  "map g (insort_key (\<lambda>y. k (g y)) x xs) = insort_key k (g x) (map g xs)"
  by (induction xs) simp_all

lemma sort_key_map_commute:
  "map g (sort_key (\<lambda>y. k (g y)) xs) = sort_key k (map g xs)"
  by (induction xs) (simp_all add: insort_key_map)

subsection \<open>The loop of the collocation miner\<close>

lemma lp_doc_step_flat:
  "lp_doc_step dt st =
     fold (\<lambda>ng. lp_ngram_step (fst ng) (snd ng))
       (concat (map (\<lambda>n. map (Pair n) (generate_ngrams (snd dt) n (fst dt))) [2, 3, 4, 5])) st"
  by (simp add: lp_doc_step_def fold_map comp_def)

lemma lp_tables_flat:
  "fold lp_doc_step all_tokens st =
     fold (\<lambda>ng. lp_ngram_step (fst ng) (snd ng)) (lp_occurrences all_tokens) st"
proof (induction all_tokens arbitrary: st)
  case Nil
  then show ?case by (simp add: lp_occurrences_def)
next
  case (Cons dt rest)
  have "lp_occurrences (dt # rest) =
      concat (map (\<lambda>n. map (Pair n) (generate_ngrams (snd dt) n (fst dt))) [2, 3, 4, 5])
      @ lp_occurrences rest"
    by (simp add: lp_occurrences_def)
  then show ?case using Cons.IH by (simp only: fold.simps fold_append comp_def lp_doc_step_flat)
qed

lemma fold_lp_ngram_step:
  "\<exists>ps'. fold (\<lambda>ng. lp_ngram_step (fst ng) (snd ng)) obs (pc, pd, ps, pn) =
     (fold counter_inc (map fst (map snd obs)) pc,
      fold (\<lambda>g. dict_add (fst g) (fst (snd g))) (map snd obs) pd,
      ps',
      fold (\<lambda>ng. dict_set (fst (snd ng)) (fst ng)) obs pn)"
  by (induction obs arbitrary: pc pd ps pn)
     (simp_all add: lp_ngram_step_def split: prod.splits)

lemma lp_tables_eq:
  "\<exists>ps' pn'. lp_tables all_tokens =
     (fold counter_inc (map fst (all_ngrams all_tokens)) [],
      fold (\<lambda>g. dict_add (fst g) (fst (snd g))) (all_ngrams all_tokens) [],
      ps', pn')"
  unfolding lp_tables_def lp_tables_flat all_ngrams_def
  using fold_lp_ngram_step [of "lp_occurrences all_tokens" "[]" "[]" "[]" "[]"] by blast

lemma lp_item_core:
  "map lp_core (lp_item enum1 tables u t td pc) = map lp_core (lp_item enum2 tables u t td pc)"
  by (simp add: lp_item_def lp_core_def Let_def split: prod.splits)

lemma lp_key_core:
  "lp_key = (\<lambda>x. (- snd (snd (snd (snd (snd (lp_core x))))), - fst (snd (snd (snd (snd (lp_core x)))))))"
  by (rule ext) (simp add: lp_key_def lp_core_def)

text \<open>
  C9, amended.  The only thing a run of \<open>extract_learning_phrases\<close> does not fix is
  the order in which the set of surface forms of a phrase is listed.  Whatever that
  order, two runs on the same documents in the same order, with the same tokens and the
  same document count, give the same phrases with the same counts, document frequencies,
  scores and PMI values, in the same order: the two lists agree in every field but
  \<open>surfaces\<close>.
\<close>

theorem extract_learning_phrases_deterministic:
  "map lp_core (extract_learning_phrases enum1 all_tokens total_docs)
     = map lp_core (extract_learning_phrases enum2 all_tokens total_docs)"
proof -
  let ?k = "\<lambda>c :: string \<times> string \<times> nat \<times> nat \<times> real \<times> real.
              (- snd (snd (snd (snd (snd c)))), - fst (snd (snd (snd (snd c)))))"
  let ?tb = "lp_tables all_tokens"
  let ?ut = "unigram_counts_and_total all_tokens"
  let ?items = "\<lambda>enum. concat (map (lp_item enum ?tb (fst ?ut) (snd ?ut) total_docs) (fst ?tb))"
  have items: "map lp_core (?items enum1) = map lp_core (?items enum2)"
    unfolding map_concat map_map comp_def using lp_item_core [of enum1 ?tb _ _ _ _ enum2] by simp
  have "map lp_core (extract_learning_phrases enum all_tokens total_docs)
      = take 1000 (sort_key ?k (map lp_core (?items enum)))" for enum
    unfolding extract_learning_phrases_def Let_def take_map [symmetric] lp_key_core
    using sort_key_map_commute [where g = lp_core and k = ?k] by simp
  then show ?thesis using items by simp
qed

lemma lp_item_names:
  assumes tb: "lp_tables all_tokens =
     (fold counter_inc (map fst (all_ngrams all_tokens)) [],
      fold (\<lambda>g. dict_add (fst g) (fst (snd g))) (all_ngrams all_tokens) [],
      ps', pn')"
    and kc: "kc \<in> set (fold counter_inc (map fst (all_ngrams all_tokens)) [])"
  shows "map lp_t (lp_item enum (lp_tables all_tokens) u t total_docs kc)
           = (if passes_filter all_tokens total_docs (fst kc) then [fst kc] else [])"
    and "\<forall>x \<in> set (lp_item enum (lp_tables all_tokens) u t total_docs kc).
           lp_c x = phrase_total all_tokens (lp_t x) \<and> lp_df x = phrase_df all_tokens (lp_t x)"
proof -
  have c: "snd kc = phrase_total all_tokens (fst kc)"
    using counter_member_count [OF kc] by (simp add: phrase_total_def)
  have d: "length (dict_get (fst kc) []
             (fold (\<lambda>g. dict_add (fst g) (fst (snd g))) (all_ngrams all_tokens) []))
           = phrase_df all_tokens (fst kc)"
    by (simp add: fold_dict_add_length phrase_df_def)
  show "map lp_t (lp_item enum (lp_tables all_tokens) u t total_docs kc)
           = (if passes_filter all_tokens total_docs (fst kc) then [fst kc] else [])"
    unfolding tb lp_item_def
    by (auto simp: Let_def c d passes_filter_def min_count_def min_doc_freq_def)
  show "\<forall>x \<in> set (lp_item enum (lp_tables all_tokens) u t total_docs kc).
           lp_c x = phrase_total all_tokens (lp_t x) \<and> lp_df x = phrase_df all_tokens (lp_t x)"
    unfolding tb lp_item_def
    by (auto simp: Let_def c d)
qed

lemma lp_items_names:
  assumes tb: "lp_tables all_tokens =
     (fold counter_inc (map fst (all_ngrams all_tokens)) [],
      fold (\<lambda>g. dict_add (fst g) (fst (snd g))) (all_ngrams all_tokens) [],
      ps', pn')"
    and xs: "set xs \<subseteq> set (fold counter_inc (map fst (all_ngrams all_tokens)) [])"
  shows "map lp_t (concat (map (lp_item enum (lp_tables all_tokens) u t total_docs) xs))
           = filter (passes_filter all_tokens total_docs) (map fst xs)"
  using xs by (induction xs) (simp_all add: lp_item_names(1) [OF tb])

text \<open>The items before sorting: one for each phrase that passes_filter, in counter order.\<close>

lemma lp_items:
  "\<exists>items. extract_learning_phrases enum all_tokens total_docs = take 1000 (sort_key lp_key items)
     \<and> distinct (map lp_t items)
     \<and> set (map lp_t items) = kept_phrases all_tokens total_docs
     \<and> (\<forall>x \<in> set items. lp_c x = phrase_total all_tokens (lp_t x)
                          \<and> lp_df x = phrase_df all_tokens (lp_t x))"
proof -
  obtain ps' pn' where tb: "lp_tables all_tokens =
     (fold counter_inc (map fst (all_ngrams all_tokens)) [],
      fold (\<lambda>g. dict_add (fst g) (fst (snd g))) (all_ngrams all_tokens) [],
      ps', pn')"
    using lp_tables_eq by blast
  let ?pc = "fold counter_inc (map fst (all_ngrams all_tokens)) []"
  let ?ut = "unigram_counts_and_total all_tokens"
  let ?items = "concat (map (lp_item enum (lp_tables all_tokens) (fst ?ut) (snd ?ut) total_docs) ?pc)"
  have f: "fst (lp_tables all_tokens) = ?pc" by (simp add: tb)
  have e: "extract_learning_phrases enum all_tokens total_docs = take 1000 (sort_key lp_key ?items)"
    by (simp add: extract_learning_phrases_def Let_def f)
  have n: "map lp_t ?items = filter (passes_filter all_tokens total_docs) (map fst ?pc)"
    by (rule lp_items_names [OF tb]) simp
  have dpc: "distinct (map fst ?pc)" by (rule fold_counter_inc_distinct) simp
  have 1: "distinct (map lp_t ?items)" unfolding n using dpc by (rule distinct_filter)
  have "set (map fst ?pc) = set (map fst (all_ngrams all_tokens))"
    using fold_counter_inc_keys [of "map fst (all_ngrams all_tokens)" "[]"] by simp
  then have 2: "set (map lp_t ?items) = kept_phrases all_tokens total_docs"
    unfolding n kept_phrases_def by (simp del: set_map)
  have 3: "\<forall>x \<in> set ?items. lp_c x = phrase_total all_tokens (lp_t x)
                          \<and> lp_df x = phrase_df all_tokens (lp_t x)"
    using lp_item_names(2) [OF tb] by auto
  show ?thesis using e 1 2 3 by blast
qed

lemma kept_phrases_iff:
  "p \<in> kept_phrases all_tokens total_docs \<longleftrightarrow>
     p \<in> fst ` set (all_ngrams all_tokens) \<and> phrase_has_distinctive_word p \<and>
     (if total_docs = 1 then 2 \<le> phrase_total all_tokens p \<and> 1 \<le> phrase_df all_tokens p
      else 5 \<le> phrase_total all_tokens p \<and> 2 \<le> phrase_df all_tokens p)"
  by (auto simp: kept_phrases_def passes_filter_def)

lemma learning_phrases_subset:
  "lp_t ` set (extract_learning_phrases enum all_tokens total_docs)
     \<subseteq> kept_phrases all_tokens total_docs"
proof -
  obtain items where e: "extract_learning_phrases enum all_tokens total_docs = take 1000 (sort_key lp_key items)"
    and s: "set (map lp_t items) = kept_phrases all_tokens total_docs"
    using lp_items by blast
  have "set (take 1000 (sort_key lp_key items)) \<subseteq> set items"
    using set_take_subset [of 1000 "sort_key lp_key items"] by simp
  then show ?thesis unfolding e using s by auto
qed

lemma learning_phrases_length:
  "length (extract_learning_phrases enum all_tokens total_docs)
     = min 1000 (card (kept_phrases all_tokens total_docs))"
proof -
  obtain items where e: "extract_learning_phrases enum all_tokens total_docs = take 1000 (sort_key lp_key items)"
    and d: "distinct (map lp_t items)"
    and s: "set (map lp_t items) = kept_phrases all_tokens total_docs"
    using lp_items by blast
  have "card (kept_phrases all_tokens total_docs) = length (map lp_t items)"
    unfolding s [symmetric] using d by (rule distinct_card)
  then show ?thesis unfolding e by (simp add: min.commute)
qed

lemma learning_phrases_all:
  assumes "card (kept_phrases all_tokens total_docs) \<le> 1000"
  shows "lp_t ` set (extract_learning_phrases enum all_tokens total_docs)
     = kept_phrases all_tokens total_docs"
proof -
  obtain items where e: "extract_learning_phrases enum all_tokens total_docs = take 1000 (sort_key lp_key items)"
    and d: "distinct (map lp_t items)"
    and s: "set (map lp_t items) = kept_phrases all_tokens total_docs"
    using lp_items by blast
  have "card (kept_phrases all_tokens total_docs) = length (map lp_t items)"
    unfolding s [symmetric] using d by (rule distinct_card)
  then have "length (sort_key lp_key items) \<le> 1000" using assms by simp
  then have "take 1000 (sort_key lp_key items) = sort_key lp_key items" by simp
  then show ?thesis unfolding e using s by simp
qed

lemma learning_phrases_counts:
  "x \<in> set (extract_learning_phrases enum all_tokens total_docs) \<Longrightarrow>
     lp_c x = phrase_total all_tokens (lp_t x) \<and> lp_df x = phrase_df all_tokens (lp_t x)"
proof -
  assume x: "x \<in> set (extract_learning_phrases enum all_tokens total_docs)"
  obtain items where e: "extract_learning_phrases enum all_tokens total_docs = take 1000 (sort_key lp_key items)"
    and c: "\<forall>x \<in> set items. lp_c x = phrase_total all_tokens (lp_t x)
                          \<and> lp_df x = phrase_df all_tokens (lp_t x)"
    using lp_items by blast
  have "x \<in> set items" using x unfolding e by (auto dest: in_set_takeD)
  then show ?thesis using c by blast
qed

lemma learning_phrases_filter:
  "(\<forall>x \<in> set (extract_learning_phrases enum all_tokens total_docs).
      lp_t x \<in> fst ` set (all_ngrams all_tokens) \<and> phrase_has_distinctive_word (lp_t x) \<and>
      lp_c x = phrase_total all_tokens (lp_t x) \<and> lp_df x = phrase_df all_tokens (lp_t x) \<and>
      (if total_docs = 1 then 2 \<le> lp_c x \<and> 1 \<le> lp_df x else 5 \<le> lp_c x \<and> 2 \<le> lp_df x))
   \<and> length (extract_learning_phrases enum all_tokens total_docs)
       = min 1000 (card (kept_phrases all_tokens total_docs))
   \<and> (card (kept_phrases all_tokens total_docs) \<le> 1000 \<longrightarrow>
       (\<forall>p. p \<in> lp_t ` set (extract_learning_phrases enum all_tokens total_docs) \<longleftrightarrow>
          p \<in> fst ` set (all_ngrams all_tokens) \<and> phrase_has_distinctive_word p \<and>
          (if total_docs = 1 then 2 \<le> phrase_total all_tokens p \<and> 1 \<le> phrase_df all_tokens p
           else 5 \<le> phrase_total all_tokens p \<and> 2 \<le> phrase_df all_tokens p)))"
proof (intro conjI ballI impI allI)
  fix x assume x: "x \<in> set (extract_learning_phrases enum all_tokens total_docs)"
  then have "lp_t x \<in> kept_phrases all_tokens total_docs"
    using learning_phrases_subset [of enum all_tokens total_docs] by auto
  then have q: "lp_t x \<in> fst ` set (all_ngrams all_tokens) \<and> phrase_has_distinctive_word (lp_t x) \<and>
     (if total_docs = 1 then 2 \<le> phrase_total all_tokens (lp_t x) \<and> 1 \<le> phrase_df all_tokens (lp_t x)
      else 5 \<le> phrase_total all_tokens (lp_t x) \<and> 2 \<le> phrase_df all_tokens (lp_t x))"
    unfolding kept_phrases_iff .
  have c: "lp_c x = phrase_total all_tokens (lp_t x) \<and> lp_df x = phrase_df all_tokens (lp_t x)"
    using x by (rule learning_phrases_counts)
  show "lp_t x \<in> fst ` set (all_ngrams all_tokens)" using q by simp
  show "phrase_has_distinctive_word (lp_t x)" using q by simp
  show "lp_c x = phrase_total all_tokens (lp_t x)" using c by simp
  show "lp_df x = phrase_df all_tokens (lp_t x)" using c by simp
  show "if total_docs = 1 then 2 \<le> lp_c x \<and> 1 \<le> lp_df x else 5 \<le> lp_c x \<and> 2 \<le> lp_df x"
    using q c by (auto split: if_splits)
next
  show "length (extract_learning_phrases enum all_tokens total_docs)
       = min 1000 (card (kept_phrases all_tokens total_docs))"
    by (rule learning_phrases_length)
next
  fix p assume "card (kept_phrases all_tokens total_docs) \<le> 1000"
  then have "lp_t ` set (extract_learning_phrases enum all_tokens total_docs)
     = kept_phrases all_tokens total_docs" by (rule learning_phrases_all)
  then show "p \<in> lp_t ` set (extract_learning_phrases enum all_tokens total_docs) \<longleftrightarrow>
          p \<in> fst ` set (all_ngrams all_tokens) \<and> phrase_has_distinctive_word p \<and>
          (if total_docs = 1 then 2 \<le> phrase_total all_tokens p \<and> 1 \<le> phrase_df all_tokens p
           else 5 \<le> phrase_total all_tokens p \<and> 2 \<le> phrase_df all_tokens p)"
    using kept_phrases_iff [of p all_tokens total_docs] by blast
qed

lemma split_acc_word:
  "\<forall>c \<in> set w. \<not> py_isspace c \<Longrightarrow> split_acc cur (w @ rest) = split_acc (rev w @ cur) rest"
  by (induction w arbitrary: cur) simp_all

lemma py_split_two:
  assumes "w1 \<noteq> []" "w2 \<noteq> []" "\<forall>c \<in> set w1. \<not> py_isspace c" "\<forall>c \<in> set w2. \<not> py_isspace c"
  shows "py_split (w1 @ '' '' @ w2) = [w1, w2]"
proof -
  have "split_acc [] (w1 @ '' '' @ w2) = split_acc (rev w1 @ []) ('' '' @ w2)"
    using assms(3) by (rule split_acc_word)
  also have "\<dots> = w1 # split_acc [] (w2 @ [])" using assms(1) by simp
  also have "split_acc [] (w2 @ []) = split_acc (rev w2 @ []) []"
    using assms(4) by (rule split_acc_word)
  also have "\<dots> = [w2]" using assms(2) by simp
  finally show ?thesis by (simp add: py_split_def)
qed

lemma zword_no_space: "\<forall>c \<in> set (zword i). \<not> py_isspace c"
  by (simp add: zword_def)

lemma py_split_zbigram: "py_split (zbigram i) = [zword i, zword (Suc i)]"
  unfolding zbigram_def by (rule py_split_two) (simp_all add: zword_no_space)

lemma py_strip_zbigram: "py_strip (zbigram i) = zbigram i"
  by (rule py_strip_id) (simp_all add: zbigram_def zword_def)

lemma zbigram_nonempty [simp]: "zbigram i \<noteq> []"
  by (simp add: zbigram_def)

lemma zbigram_inj [simp]: "zbigram i = zbigram j \<longleftrightarrow> i = j"
proof
  assume "zbigram i = zbigram j"
  then have "length (zbigram i) = length (zbigram j)" by simp
  then show "i = j" by (simp add: zbigram_def zword_def)
qed simp

lemma zbigram_distinctive: "phrase_has_distinctive_word (zbigram i)"
  by (simp add: phrase_has_distinctive_word_def py_strip_zbigram py_split_zbigram)

lemma take2_drop: "Suc j < length xs \<Longrightarrow> take 2 (drop j xs) = [xs ! j, xs ! Suc j]"
proof -
  assume h: "Suc j < length xs"
  then have "drop j xs = xs ! j # drop (Suc j) xs" by (simp add: Cons_nth_drop_Suc)
  moreover have "drop (Suc j) xs = xs ! Suc j # drop (Suc (Suc j)) xs"
    using h by (simp add: Cons_nth_drop_Suc)
  ultimately show ?thesis by (simp add: numeral_2_eq_2)
qed

lemma ngram_at_ztokens:
  assumes "Suc j < length ks"
  shows "ngram_at (map ztoken ks) 2 d j =
     [(zword (ks ! j) @ '' '' @ zword (ks ! Suc j), d, zword (ks ! j) @ '' '' @ zword (ks ! Suc j))]"
proof -
  have "take 2 (drop j (map ztoken ks)) = [ztoken (ks ! j), ztoken (ks ! Suc j)]"
    using assms by (simp add: take2_drop)
  then show ?thesis by (simp add: ngram_at_def ztoken_def CONTENT_POS_def)
qed

lemma ne_empty_if_mem: "x \<in> A \<Longrightarrow> A \<noteq> {}"
  by auto

lemma count_list_pos: "x \<in> set xs \<Longrightarrow> 1 \<le> count_list xs x"
  using count_list_0_iff [of xs x] by (cases "count_list xs x") auto

lemma count_concat_two:
  assumes "j1 < j2" "j2 < N" "p \<in> fst ` set (f j1)" "p \<in> fst ` set (f j2)"
  shows "2 \<le> count_list (map fst (concat (map f [0..<N]))) p"
proof -
  let ?g = "\<lambda>j. count_list (map fst (f j)) p"
  have "count_list (map fst (concat (map f [0..<N]))) p = sum_list (map ?g [0..<N])"
    by (simp add: map_concat count_list_concat comp_def)
  also have "\<dots> = sum ?g {0..<N}" by (simp add: interv_sum_list_conv_sum_set_nat)
  finally have e: "count_list (map fst (concat (map f [0..<N]))) p = sum ?g {0..<N}" .
  have "sum ?g {j1, j2} \<le> sum ?g {0..<N}"
    using assms(1,2) by (intro sum_mono2) auto
  moreover have "sum ?g {j1, j2} = ?g j1 + ?g j2" using assms(1) by simp
  moreover have "1 \<le> ?g j1" using assms(3) by (intro count_list_pos) simp
  moreover have "1 \<le> ?g j2" using assms(4) by (intro count_list_pos) simp
  ultimately show ?thesis unfolding e by linarith
qed

lemma all_ngrams_single:
  "all_ngrams [(d, toks)] =
     generate_ngrams toks 2 d @ generate_ngrams toks 3 d
     @ generate_ngrams toks 4 d @ generate_ngrams toks 5 d"
  by (simp add: all_ngrams_def lp_occurrences_def comp_def)

lemma zcorpus_total:
  assumes "i < 1001"
  shows "2 \<le> phrase_total zcorpus (zbigram i)"
proof -
  let ?ks = "[0..<1002] @ [0..<1002]"
  let ?f = "ngram_at (map ztoken ?ks) 2 ''d1''"
  have a: "?f i = [(zbigram i, ''d1'', zbigram i)]"
    using assms ngram_at_ztokens [of i ?ks "''d1''"] by (simp add: nth_append zbigram_def)
  have "?ks ! (i + 1002) = i" "?ks ! Suc (i + 1002) = Suc i"
    using assms by (simp_all add: nth_append)
  then have b: "?f (i + 1002) = [(zbigram i, ''d1'', zbigram i)]"
    using assms ngram_at_ztokens [of "i + 1002" ?ks "''d1''"] by (simp add: zbigram_def)
  have "2 \<le> count_list (map fst (concat (map ?f [0..<2003]))) (zbigram i)"
    by (rule count_concat_two [where ?j1.0 = i and ?j2.0 = "i + 1002"]) (use assms a b in simp_all)
  moreover have "generate_ngrams (map ztoken ?ks) 2 ''d1'' = concat (map ?f [0..<2003])"
    by (simp add: generate_ngrams_def)
  ultimately have "2 \<le> count_list (map fst (generate_ngrams (map ztoken ?ks) 2 ''d1'')) (zbigram i)"
    by simp
  then show ?thesis
    unfolding phrase_total_def zcorpus_def all_ngrams_single by simp
qed

lemma phrase_seen:
  assumes "1 \<le> phrase_total all_tokens p"
  shows "p \<in> fst ` set (all_ngrams all_tokens) \<and> 1 \<le> phrase_df all_tokens p"
proof -
  have m: "p \<in> set (map fst (all_ngrams all_tokens))"
    using assms count_list_0_iff [of "map fst (all_ngrams all_tokens)" p]
    by (auto simp: phrase_total_def)
  then obtain g where g: "g \<in> set (all_ngrams all_tokens)" "fst g = p" by auto
  let ?S = "(\<lambda>g. fst (snd g)) ` set (filter (\<lambda>g. fst g = p) (all_ngrams all_tokens))"
  have "fst (snd g) \<in> ?S" using g by auto
  then have "?S \<noteq> {}" by (rule ne_empty_if_mem)
  moreover have "finite ?S" by simp
  ultimately have "0 < card ?S" by (simp add: card_gt_0_iff)
  then show ?thesis using m by (simp add: phrase_df_def)
qed

lemma zbigram_kept:
  assumes "i < 1001"
  shows "zbigram i \<in> kept_phrases zcorpus 1"
proof -
  have t: "2 \<le> phrase_total zcorpus (zbigram i)" using assms by (rule zcorpus_total)
  then have "1 \<le> phrase_total zcorpus (zbigram i)" by simp
  then have "zbigram i \<in> fst ` set (all_ngrams zcorpus) \<and> 1 \<le> phrase_df zcorpus (zbigram i)"
    by (rule phrase_seen)
  then show ?thesis using t zbigram_distinctive by (simp add: kept_phrases_iff)
qed

lemma learning_phrases_cap:
  "lp_t ` set (extract_learning_phrases insertion_order zcorpus 1) \<noteq> kept_phrases zcorpus 1"
proof
  let ?out = "extract_learning_phrases insertion_order zcorpus 1"
  assume e: "lp_t ` set ?out = kept_phrases zcorpus 1"
  have "card (lp_t ` set ?out) \<le> card (set ?out)" by (rule card_image_le) simp
  also have "\<dots> \<le> length ?out" by (rule card_length)
  also have "\<dots> \<le> 1000" by (simp add: learning_phrases_length)
  finally have le: "card (kept_phrases zcorpus 1) \<le> 1000" unfolding e .
  have "zbigram ` {0..<1001} \<subseteq> kept_phrases zcorpus 1"
    using zbigram_kept by auto
  moreover have "finite (kept_phrases zcorpus 1)" by (simp add: kept_phrases_def)
  ultimately have "card (zbigram ` {0..<1001}) \<le> card (kept_phrases zcorpus 1)"
    by (intro card_mono)
  moreover have "card (zbigram ` {0..<1001}) = 1001"
    by (subst card_image) (simp_all add: inj_on_def)
  ultimately show False using le by simp
qed

lemma folks_not_common: "''folks'' \<notin> set COMMON_LEMMAS"
  by (simp add: COMMON_LEMMAS_def)

lemma all_ngrams_one_doc:
  "map (\<lambda>g. (fst g, fst (snd g))) (all_ngrams one_doc_corpus) =
     [(''folks reckon'', ''d1''), (''reckon folks'', ''d1''), (''folks reckon'', ''d1''),
      (''folks reckon folks'', ''d1''), (''reckon folks reckon'', ''d1''),
      (''folks reckon folks reckon'', ''d1'')]"
  by (simp add: all_ngrams_def lp_occurrences_def one_doc_corpus_def generate_ngrams_def
      ngram_at_def folks_def reckon_def CONTENT_POS_def upt_rec)

lemma all_ngrams_two_doc:
  "map (\<lambda>g. (fst g, fst (snd g))) (all_ngrams two_doc_corpus) =
     [(''folks reckon'', ''d1''), (''reckon folks'', ''d1''), (''folks reckon'', ''d1''),
      (''reckon folks'', ''d1''), (''folks reckon'', ''d1''),
      (''folks reckon folks'', ''d1''), (''reckon folks reckon'', ''d1''),
      (''folks reckon folks'', ''d1''), (''reckon folks reckon'', ''d1''),
      (''folks reckon folks reckon'', ''d1''), (''reckon folks reckon folks'', ''d1''),
      (''folks reckon folks reckon'', ''d1''),
      (''folks reckon folks reckon folks'', ''d1''), (''reckon folks reckon folks reckon'', ''d1''),
      (''folks reckon'', ''d2''), (''reckon folks'', ''d2''), (''folks reckon'', ''d2''),
      (''reckon folks'', ''d2''),
      (''folks reckon folks'', ''d2''), (''reckon folks reckon'', ''d2''),
      (''folks reckon folks'', ''d2''),
      (''folks reckon folks reckon'', ''d2''), (''reckon folks reckon folks'', ''d2''),
      (''folks reckon folks reckon folks'', ''d2'')]"
  by (simp add: all_ngrams_def lp_occurrences_def two_doc_corpus_def generate_ngrams_def
      ngram_at_def folks_def reckon_def CONTENT_POS_def upt_rec)

lemma phrase_total_pairs:
  "phrase_total c p = count_list (map fst (map (\<lambda>g. (fst g, fst (snd g))) (all_ngrams c))) p"
  by (simp add: phrase_total_def comp_def)

lemma phrase_df_pairs:
  "phrase_df c p =
     card (snd ` set (filter (\<lambda>q. fst q = p) (map (\<lambda>g. (fst g, fst (snd g))) (all_ngrams c))))"
  by (simp add: phrase_df_def filter_map comp_def image_image)

lemma candidates_pairs:
  "fst ` set (all_ngrams c) = fst ` set (map (\<lambda>g. (fst g, fst (snd g))) (all_ngrams c))"
  by (simp add: image_image)

lemma card_kept_le:
  "card (kept_phrases c td) \<le> length (map (\<lambda>g. (fst g, fst (snd g))) (all_ngrams c))"
proof -
  have "card (kept_phrases c td) \<le> length (filter (passes_filter c td) (map fst (all_ngrams c)))"
    unfolding kept_phrases_def by (rule card_length)
  also have "\<dots> \<le> length (map fst (all_ngrams c))" by (rule length_filter_le)
  finally show ?thesis by simp
qed

lemma folks_reckon_distinctive:
  "phrase_has_distinctive_word ''folks reckon''" "phrase_has_distinctive_word ''reckon folks''"
  by (simp_all add: phrase_has_distinctive_word_def py_strip_id py_split_def py_isspace_def
      py_lower_def py_lower_char_def folks_not_common)

lemma one_doc_counts:
  "phrase_total one_doc_corpus ''folks reckon'' = 2"
  "phrase_df one_doc_corpus ''folks reckon'' = 1"
  "phrase_total one_doc_corpus ''reckon folks'' = 1"
  "''folks reckon'' \<in> fst ` set (all_ngrams one_doc_corpus)"
  "card (kept_phrases one_doc_corpus 1) \<le> 1000"
      apply (simp add: phrase_total_pairs all_ngrams_one_doc)
     apply (simp add: phrase_df_pairs all_ngrams_one_doc)
    apply (simp add: phrase_total_pairs all_ngrams_one_doc)
   apply (simp add: candidates_pairs all_ngrams_one_doc)
  using card_kept_le [of one_doc_corpus 1] apply (simp add: all_ngrams_one_doc)
  done

lemma two_doc_counts:
  "phrase_total two_doc_corpus ''folks reckon'' = 5"
  "phrase_df two_doc_corpus ''folks reckon'' = 2"
  "phrase_total two_doc_corpus ''reckon folks'' = 4"
  "phrase_df two_doc_corpus ''reckon folks'' = 2"
  "''folks reckon'' \<in> fst ` set (all_ngrams two_doc_corpus)"
  "card (kept_phrases two_doc_corpus 2) \<le> 1000"
       apply (simp add: phrase_total_pairs all_ngrams_two_doc)
      apply (simp add: phrase_df_pairs all_ngrams_two_doc)
     apply (simp add: phrase_total_pairs all_ngrams_two_doc)
    apply (simp add: phrase_df_pairs all_ngrams_two_doc)
   apply (simp add: candidates_pairs all_ngrams_two_doc)
  using card_kept_le [of two_doc_corpus 2] apply (simp add: all_ngrams_two_doc)
  done

lemma all_ngrams_Nil [simp]: "all_ngrams [] = []"
  by (simp add: all_ngrams_def lp_occurrences_def)

lemma candidate_corpus_nonempty: "p \<in> fst ` set (all_ngrams all_tokens) \<Longrightarrow> 1 \<le> length all_tokens"
  by (cases all_tokens) auto

lemma qualifying_phrases_iff:
  "p \<in> qualifying_phrases all_tokens \<longleftrightarrow>
     p \<in> fst ` set (all_ngrams all_tokens) \<and> phrase_has_distinctive_word p \<and>
     (length all_tokens = 1 \<longrightarrow>
        2 \<le> phrase_total all_tokens p \<and> 1 \<le> phrase_df all_tokens p) \<and>
     (2 \<le> length all_tokens \<longrightarrow>
        5 \<le> phrase_total all_tokens p \<and> 2 \<le> phrase_df all_tokens p)"
  by (auto simp: qualifying_phrases_def qualifies_def)

text \<open>Run with the document count of the corpus, the filter keeps the phrases that qualify.\<close>

lemma kept_phrases_own_count:
  "kept_phrases all_tokens (length all_tokens) = qualifying_phrases all_tokens"
proof (rule set_eqI)
  fix p
  show "p \<in> kept_phrases all_tokens (length all_tokens) \<longleftrightarrow> p \<in> qualifying_phrases all_tokens"
  proof (cases "p \<in> fst ` set (all_ngrams all_tokens)")
    case True
    then have "1 \<le> length all_tokens" by (rule candidate_corpus_nonempty)
    then have "length all_tokens = 1 \<or> 2 \<le> length all_tokens" by linarith
    then show ?thesis
      unfolding kept_phrases_iff qualifying_phrases_iff by auto
  next
    case False
    then show ?thesis unfolding kept_phrases_iff qualifying_phrases_iff by simp
  qed
qed

text \<open>
  C1, amended.  Run with the document count of its corpus, \<open>extract_learning_phrases\<close>
  emits only generated n-gram phrases that have a word outside the common set and clear
  the thresholds of the corpus size (one document: count at least 2, document frequency
  at least 1; two or more: at least 5 and at least 2), each entry carrying the count and
  the document frequency of its phrase.  The result has as many entries as there are
  such phrases, up to 1000; and when there are at most 1000, a phrase is emitted if and
  only if it is one of them.
\<close>

theorem learning_phrases_thresholds:
  "(\<forall>x \<in> set (extract_learning_phrases enum all_tokens (length all_tokens)).
      lp_t x \<in> fst ` set (all_ngrams all_tokens) \<and> phrase_has_distinctive_word (lp_t x) \<and>
      lp_c x = phrase_total all_tokens (lp_t x) \<and> lp_df x = phrase_df all_tokens (lp_t x) \<and>
      (length all_tokens = 1 \<longrightarrow> 2 \<le> lp_c x \<and> 1 \<le> lp_df x) \<and>
      (2 \<le> length all_tokens \<longrightarrow> 5 \<le> lp_c x \<and> 2 \<le> lp_df x))
   \<and> length (extract_learning_phrases enum all_tokens (length all_tokens))
       = min 1000 (card (qualifying_phrases all_tokens))
   \<and> (card (qualifying_phrases all_tokens) \<le> 1000 \<longrightarrow>
       (\<forall>p. p \<in> lp_t ` set (extract_learning_phrases enum all_tokens (length all_tokens)) \<longleftrightarrow>
          p \<in> fst ` set (all_ngrams all_tokens) \<and> phrase_has_distinctive_word p \<and>
          (length all_tokens = 1 \<longrightarrow>
             2 \<le> phrase_total all_tokens p \<and> 1 \<le> phrase_df all_tokens p) \<and>
          (2 \<le> length all_tokens \<longrightarrow>
             5 \<le> phrase_total all_tokens p \<and> 2 \<le> phrase_df all_tokens p)))"
proof -
  let ?out = "extract_learning_phrases enum all_tokens (length all_tokens)"
  have A: "\<forall>x \<in> set ?out.
      lp_t x \<in> fst ` set (all_ngrams all_tokens) \<and> phrase_has_distinctive_word (lp_t x) \<and>
      lp_c x = phrase_total all_tokens (lp_t x) \<and> lp_df x = phrase_df all_tokens (lp_t x) \<and>
      (length all_tokens = 1 \<longrightarrow> 2 \<le> lp_c x \<and> 1 \<le> lp_df x) \<and>
      (2 \<le> length all_tokens \<longrightarrow> 5 \<le> lp_c x \<and> 2 \<le> lp_df x)"
  proof
    fix x assume x: "x \<in> set ?out"
    then have "lp_t x \<in> qualifying_phrases all_tokens"
      using learning_phrases_subset [of enum all_tokens "length all_tokens"]
      unfolding kept_phrases_own_count by auto
    then have q: "lp_t x \<in> fst ` set (all_ngrams all_tokens) \<and> phrase_has_distinctive_word (lp_t x) \<and>
       (length all_tokens = 1 \<longrightarrow>
          2 \<le> phrase_total all_tokens (lp_t x) \<and> 1 \<le> phrase_df all_tokens (lp_t x)) \<and>
       (2 \<le> length all_tokens \<longrightarrow>
          5 \<le> phrase_total all_tokens (lp_t x) \<and> 2 \<le> phrase_df all_tokens (lp_t x))"
      unfolding qualifying_phrases_iff .
    have c: "lp_c x = phrase_total all_tokens (lp_t x) \<and> lp_df x = phrase_df all_tokens (lp_t x)"
      using x by (rule learning_phrases_counts)
    show "lp_t x \<in> fst ` set (all_ngrams all_tokens) \<and> phrase_has_distinctive_word (lp_t x) \<and>
      lp_c x = phrase_total all_tokens (lp_t x) \<and> lp_df x = phrase_df all_tokens (lp_t x) \<and>
      (length all_tokens = 1 \<longrightarrow> 2 \<le> lp_c x \<and> 1 \<le> lp_df x) \<and>
      (2 \<le> length all_tokens \<longrightarrow> 5 \<le> lp_c x \<and> 2 \<le> lp_df x)"
      using q c by simp
  qed
  have B: "length ?out = min 1000 (card (qualifying_phrases all_tokens))"
    using learning_phrases_length [of enum all_tokens "length all_tokens"]
    unfolding kept_phrases_own_count .
  have C: "card (qualifying_phrases all_tokens) \<le> 1000 \<longrightarrow>
       (\<forall>p. p \<in> lp_t ` set ?out \<longleftrightarrow>
          p \<in> fst ` set (all_ngrams all_tokens) \<and> phrase_has_distinctive_word p \<and>
          (length all_tokens = 1 \<longrightarrow>
             2 \<le> phrase_total all_tokens p \<and> 1 \<le> phrase_df all_tokens p) \<and>
          (2 \<le> length all_tokens \<longrightarrow>
             5 \<le> phrase_total all_tokens p \<and> 2 \<le> phrase_df all_tokens p))"
  proof (intro impI allI)
    fix p assume "card (qualifying_phrases all_tokens) \<le> 1000"
    then have "card (kept_phrases all_tokens (length all_tokens)) \<le> 1000"
      unfolding kept_phrases_own_count .
    then have "lp_t ` set ?out = kept_phrases all_tokens (length all_tokens)"
      by (rule learning_phrases_all)
    then have "lp_t ` set ?out = qualifying_phrases all_tokens"
      unfolding kept_phrases_own_count .
    then show "p \<in> lp_t ` set ?out \<longleftrightarrow>
          p \<in> fst ` set (all_ngrams all_tokens) \<and> phrase_has_distinctive_word p \<and>
          (length all_tokens = 1 \<longrightarrow>
             2 \<le> phrase_total all_tokens p \<and> 1 \<le> phrase_df all_tokens p) \<and>
          (2 \<le> length all_tokens \<longrightarrow>
             5 \<le> phrase_total all_tokens p \<and> 2 \<le> phrase_df all_tokens p)"
      using qualifying_phrases_iff [of p all_tokens] by blast
  qed
  show ?thesis by (intro conjI) (rule A, rule B, rule C)
qed

lemma corpus_lengths: "length one_doc_corpus = 1" "length two_doc_corpus = 2"
  by (simp_all add: one_doc_corpus_def two_doc_corpus_def)

lemma kept_one_doc_two: "kept_phrases one_doc_corpus 2 = {}"
proof -
  have "filter (passes_filter one_doc_corpus 2)
          (map fst (map (\<lambda>g. (fst g, fst (snd g))) (all_ngrams one_doc_corpus))) = []"
    by (simp add: all_ngrams_one_doc passes_filter_def phrase_df_pairs)
  then show ?thesis by (simp add: kept_phrases_def comp_def)
qed

lemma one_doc_as_two: "extract_learning_phrases enum one_doc_corpus 2 = []"
  using learning_phrases_length [of enum one_doc_corpus 2] by (simp add: kept_one_doc_two)

lemma folks_reckon_qualifies: "''folks reckon'' \<in> qualifying_phrases one_doc_corpus"
  unfolding qualifying_phrases_iff
  using one_doc_counts(1,2,4) folks_reckon_distinctive(1) by (simp add: corpus_lengths)

text \<open>
  C1, as stated, fails, in two ways.  The result is cut to 1000 entries: in the
  one-document corpus that reads 1002 distinct rare words twice, each of the 1001 bigrams
  of neighbouring words occurs twice, so more than 1000 phrases qualify, and the phrases
  emitted are not all the phrases that do.  And the thresholds go by the argument
  \<open>total_docs\<close>, not by the corpus: \<open>process_person\<close> passes the number of queued documents,
  also when it has skipped one of them, and the one-document corpus ``folks reckon folks
  reckon'' mined with \<open>total_docs = 2\<close> yields nothing, though ``folks reckon'' qualifies
  there with its count of 2.
\<close>

theorem learning_phrases_counterexample:
  "lp_t ` set (extract_learning_phrases insertion_order zcorpus (length zcorpus))
     \<noteq> qualifying_phrases zcorpus
   \<and> ''folks reckon'' \<in> qualifying_phrases one_doc_corpus
   \<and> extract_learning_phrases insertion_order one_doc_corpus 2 = []"
proof -
  have l: "length zcorpus = 1" by (simp add: zcorpus_def)
  have "lp_t ` set (extract_learning_phrases insertion_order zcorpus (length zcorpus))
     \<noteq> qualifying_phrases zcorpus"
    using learning_phrases_cap unfolding l kept_phrases_own_count [of zcorpus, unfolded l] .
  then show ?thesis using folks_reckon_qualifies one_doc_as_two by blast
qed

text \<open>
  The boundaries.  One document ``folks reckon folks reckon'': ``folks reckon'' (count
  2) is emitted, ``reckon folks'' (count 1) is not.  Two documents: ``folks reckon''
  (count 5 in 2 documents) is emitted, ``reckon folks'' (count 4 in 2 documents) is not.
\<close>

theorem learning_phrases_thresholds_witness:
  "length one_doc_corpus = 1
   \<and> card (qualifying_phrases one_doc_corpus) \<le> 1000
   \<and> ''folks reckon'' \<in> lp_t ` set (extract_learning_phrases insertion_order one_doc_corpus (length one_doc_corpus))
   \<and> phrase_total one_doc_corpus ''folks reckon'' = 2
   \<and> phrase_df one_doc_corpus ''folks reckon'' = 1
   \<and> ''reckon folks'' \<notin> lp_t ` set (extract_learning_phrases insertion_order one_doc_corpus (length one_doc_corpus))
   \<and> phrase_total one_doc_corpus ''reckon folks'' = 1
   \<and> length two_doc_corpus = 2
   \<and> card (qualifying_phrases two_doc_corpus) \<le> 1000
   \<and> ''folks reckon'' \<in> lp_t ` set (extract_learning_phrases insertion_order two_doc_corpus (length two_doc_corpus))
   \<and> phrase_total two_doc_corpus ''folks reckon'' = 5
   \<and> phrase_df two_doc_corpus ''folks reckon'' = 2
   \<and> ''reckon folks'' \<notin> lp_t ` set (extract_learning_phrases insertion_order two_doc_corpus (length two_doc_corpus))
   \<and> phrase_total two_doc_corpus ''reckon folks'' = 4
   \<and> phrase_df two_doc_corpus ''reckon folks'' = 2"
proof -
  have c1: "card (qualifying_phrases one_doc_corpus) \<le> 1000"
    using one_doc_counts(5) kept_phrases_own_count [of one_doc_corpus] by (simp add: corpus_lengths)
  have c2: "card (qualifying_phrases two_doc_corpus) \<le> 1000"
    using two_doc_counts(6) kept_phrases_own_count [of two_doc_corpus] by (simp add: corpus_lengths)
  have a: "\<forall>p. p \<in> lp_t ` set (extract_learning_phrases insertion_order one_doc_corpus (length one_doc_corpus)) \<longleftrightarrow>
          p \<in> fst ` set (all_ngrams one_doc_corpus) \<and> phrase_has_distinctive_word p \<and>
          (length one_doc_corpus = 1 \<longrightarrow>
             2 \<le> phrase_total one_doc_corpus p \<and> 1 \<le> phrase_df one_doc_corpus p) \<and>
          (2 \<le> length one_doc_corpus \<longrightarrow>
             5 \<le> phrase_total one_doc_corpus p \<and> 2 \<le> phrase_df one_doc_corpus p)"
    using learning_phrases_thresholds [of insertion_order one_doc_corpus] c1 by blast
  have b: "\<forall>p. p \<in> lp_t ` set (extract_learning_phrases insertion_order two_doc_corpus (length two_doc_corpus)) \<longleftrightarrow>
          p \<in> fst ` set (all_ngrams two_doc_corpus) \<and> phrase_has_distinctive_word p \<and>
          (length two_doc_corpus = 1 \<longrightarrow>
             2 \<le> phrase_total two_doc_corpus p \<and> 1 \<le> phrase_df two_doc_corpus p) \<and>
          (2 \<le> length two_doc_corpus \<longrightarrow>
             5 \<le> phrase_total two_doc_corpus p \<and> 2 \<le> phrase_df two_doc_corpus p)"
    using learning_phrases_thresholds [of insertion_order two_doc_corpus] c2 by blast
  have a1: "''folks reckon'' \<in> lp_t ` set (extract_learning_phrases insertion_order one_doc_corpus (length one_doc_corpus))"
    using a by (simp add: one_doc_counts folks_reckon_distinctive corpus_lengths)
  have a2: "''reckon folks'' \<notin> lp_t ` set (extract_learning_phrases insertion_order one_doc_corpus (length one_doc_corpus))"
    using a by (simp add: one_doc_counts corpus_lengths)
  have b1: "''folks reckon'' \<in> lp_t ` set (extract_learning_phrases insertion_order two_doc_corpus (length two_doc_corpus))"
    using b by (simp add: two_doc_counts folks_reckon_distinctive corpus_lengths)
  have b2: "''reckon folks'' \<notin> lp_t ` set (extract_learning_phrases insertion_order two_doc_corpus (length two_doc_corpus))"
    using b by (simp add: two_doc_counts corpus_lengths)
  show ?thesis using a1 a2 b1 b2 c1 c2 one_doc_counts(1-3) two_doc_counts(1-4) corpus_lengths by blast
qed

subsection \<open>The surface forms\<close>

lemma surf_tables:
  "lp_tables surf_corpus =
     ([(''folks reckon'', 2), (''reckon folks'', 1), (''folks reckon folks'', 1),
       (''reckon folks reckon'', 1), (''folks reckon folks reckon'', 1)],
      [(''folks reckon'', [''d1'']), (''reckon folks'', [''d1'']), (''folks reckon folks'', [''d1'']),
       (''reckon folks reckon'', [''d1'']), (''folks reckon folks reckon'', [''d1''])],
      [(''folks reckon'', [''Folks reckon'', ''folks reckon'']), (''reckon folks'', [''reckon folks'']),
       (''folks reckon folks'', [''Folks reckon folks'']),
       (''reckon folks reckon'', [''reckon folks reckon'']),
       (''folks reckon folks reckon'', [''Folks reckon folks reckon''])],
      [(''folks reckon'', 2), (''reckon folks'', 2), (''folks reckon folks'', 3),
       (''reckon folks reckon'', 3), (''folks reckon folks reckon'', 4)])"
  by (simp add: lp_tables_def lp_doc_step_def surf_corpus_def generate_ngrams_def
      ngram_at_def folks_def reckon_def CONTENT_POS_def upt_rec lp_ngram_step_def
      set_add_def py_strip_id py_isspace_def)

lemma surf_surfaces:
  "map lp_surfaces (extract_learning_phrases enum surf_corpus 1)
     = [if take 30 (enum [''Folks reckon'', ''folks reckon'']) = [] then None
        else Some (take 30 (enum [''Folks reckon'', ''folks reckon'']))]"
  unfolding extract_learning_phrases_def Let_def surf_tables
  by (simp add: lp_item_def min_count_def min_doc_freq_def folks_reckon_distinctive dict_get_def Let_def)

text \<open>
  C9, as stated, fails: the output lists of two runs need not be identical.  In one
  document that reads ``Folks reckon folks reckon'' the phrase ``folks reckon'' has the two
  surface forms ``Folks reckon'' and ``folks reckon'', kept in a set; a run that lists the
  set in one order and a run that lists it in the other return lists that differ in the
  field \<open>surfaces\<close>.
\<close>

theorem extract_learning_phrases_surfaces_differ:
  "extract_learning_phrases insertion_order surf_corpus 1 \<noteq> extract_learning_phrases rev surf_corpus 1"
proof
  assume "extract_learning_phrases insertion_order surf_corpus 1 = extract_learning_phrases rev surf_corpus 1"
  then have "map lp_surfaces (extract_learning_phrases insertion_order surf_corpus 1)
      = map lp_surfaces (extract_learning_phrases rev surf_corpus 1)" by simp
  then show False unfolding surf_surfaces by (simp add: insertion_order_def)
qed

end
